theory Spec2Isabelle
  imports Complex_Main "HOL-Library.Char_ord" "HOL-Library.List_Lexorder"
begin

section \<open>Numeric conventions\<close>

text \<open>
  The pipeline computes with Python and NumPy floats. They are modelled by \<^typ>\<open>real\<close>:
  rounding error, overflow and the order of floating-point operations are not part of
  the model. A pandas cell that is missing (NaN) is modelled by \<^term>\<open>None\<close> in a
  \<^typ>\<open>real option\<close>. Integer columns (seasons, day numbers, team identifiers, scores,
  seeds) are \<^typ>\<open>int\<close>.
\<close>

text \<open>\<^verbatim>\<open>np.clip(x, lo, hi)\<close>.\<close>

definition clip :: "real \<Rightarrow> real \<Rightarrow> real \<Rightarrow> real" where
  "clip x lo hi = min (max x lo) hi"

text \<open>
  Python's \<^verbatim>\<open>round(x, n)\<close> rounds to the nearest multiple of \<open>10\<^sup>-\<^sup>n\<close>, a tie going
  to the even neighbour.
\<close>

definition round_half_even :: "real \<Rightarrow> int" where
  "round_half_even x =
     (let f = \<lfloor>x\<rfloor>; d = x - of_int f
      in if d < 1 / 2 then f
         else if 1 / 2 < d then f + 1
         else if even f then f else f + 1)"

definition py_round :: "real \<Rightarrow> nat \<Rightarrow> real" where
  "py_round x n = of_int (round_half_even (x * 10 ^ n)) / 10 ^ n"


section \<open>Feature builder: seed-implied probability\<close>

text \<open>\<^verbatim>\<open>Config.SEED_WIN_RATES\<close> of the unified pipeline.\<close>

definition SEED_WIN_RATES :: "((int \<times> int) \<times> real) list" where
  "SEED_WIN_RATES =
     [((1, 16), 0.993), ((2, 15), 0.943), ((3, 14), 0.851), ((4, 13), 0.793),
      ((5, 12), 0.649), ((6, 11), 0.627), ((7, 10), 0.609), ((8, 9), 0.519),
      ((1, 8), 0.794), ((1, 9), 0.862), ((2, 7), 0.667), ((2, 10), 0.714),
      ((3, 6), 0.571), ((3, 11), 0.657), ((4, 5), 0.545), ((4, 12), 0.667),
      ((1, 4), 0.714), ((1, 5), 0.800), ((2, 3), 0.545), ((2, 6), 0.667),
      ((1, 2), 0.556), ((1, 3), 0.650)]"

text \<open>\<^verbatim>\<open>d.get(key, default)\<close> on a dictionary given as an association list.\<close>

definition dict_get :: "('k \<times> 'v) list \<Rightarrow> 'k \<Rightarrow> 'v \<Rightarrow> 'v" where
  "dict_get d k dflt = (case map_of d k of None \<Rightarrow> dflt | Some v \<Rightarrow> v)"

text \<open>
  \<^verbatim>\<open>get_seed_prob\<close> inside \<^verbatim>\<open>build_matchup_features\<close> of the unified pipeline, on the
  two seeds after \<^verbatim>\<open>int(...)\<close>.
\<close>

definition get_seed_prob :: "int \<Rightarrow> int \<Rightarrow> real" where
  "get_seed_prob s1 s2 =
     (let key = (min s1 s2, max s1 s2);
          base_prob = dict_get SEED_WIN_RATES key 0.5
      in if s1 \<le> s2 then base_prob else 1 - base_prob)"

text \<open>The table \<^verbatim>\<open>seed_probs\<close> local to \<^verbatim>\<open>build_matchup_features\<close> of the v2 script.\<close>

definition seed_probs :: "((int \<times> int) \<times> real) list" where
  "seed_probs =
     [((1, 16), 0.993), ((2, 15), 0.938), ((3, 14), 0.881), ((4, 13), 0.810),
      ((5, 12), 0.654), ((6, 11), 0.548), ((7, 10), 0.597), ((8, 9), 0.500),
      ((1, 8), 0.85), ((1, 9), 0.85), ((2, 7), 0.64), ((2, 10), 0.64),
      ((3, 6), 0.58), ((3, 11), 0.58), ((4, 5), 0.55), ((4, 12), 0.55),
      ((1, 4), 0.72), ((1, 5), 0.72), ((2, 3), 0.55), ((2, 6), 0.55),
      ((1, 2), 0.58), ((1, 3), 0.65)]"

text \<open>The \<^verbatim>\<open>seed_implied\<close> value computed by the v2 script for seeds \<open>s1\<close>, \<open>s2\<close>.\<close>

definition seed_implied :: "int \<Rightarrow> int \<Rightarrow> real" where
  "seed_implied s1 s2 =
     (let key = (min s1 s2, max s1 s2);
          base_prob = dict_get seed_probs key 0.5
      in if s1 < s2 then base_prob
         else if s2 < s1 then 1 - base_prob
         else 0.5)"


section \<open>Archetype classifier\<close>

text \<open>
  The tier and tempo names returned by \<^verbatim>\<open>get_tier\<close> and \<^verbatim>\<open>get_tempo\<close>: the source
  uses the strings \<^verbatim>\<open>'Elite'\<close>, \<^verbatim>\<open>'Good'\<close>, \<^verbatim>\<open>'Average'\<close>, \<^verbatim>\<open>'Below Average'\<close>,
  \<^verbatim>\<open>'Weak'\<close> and \<^verbatim>\<open>'Fast'\<close>, \<^verbatim>\<open>'Medium'\<close>, \<^verbatim>\<open>'Slow'\<close>.
\<close>

datatype tier = Elite | Good | Average | Below_Average | Weak

datatype tempo = Fast | Medium | Slow

text \<open>\<^verbatim>\<open>ArchetypeEngine.ARCHETYPE_MAP\<close>, entry by entry in the order of the source.\<close>

definition ARCHETYPE_MAP :: "((tier \<times> tier \<times> tempo) \<times> string) list" where
  "ARCHETYPE_MAP =
     [((Elite, Elite, Fast), ''The Juggernaut''),
      ((Elite, Elite, Slow), ''The Fortress''),
      ((Elite, Elite, Medium), ''The Powerhouse''),
      ((Elite, Good, Fast), ''The Sharpshooter''),
      ((Elite, Good, Slow), ''The Sniper''),
      ((Elite, Good, Medium), ''The Sniper''),
      ((Elite, Average, Fast), ''The Gunslinger''),
      ((Elite, Average, Slow), ''The Gunslinger''),
      ((Elite, Average, Medium), ''The Gunslinger''),
      ((Elite, Below_Average, Fast), ''The Glass Cannon''),
      ((Elite, Below_Average, Slow), ''The Glass Cannon''),
      ((Elite, Below_Average, Medium), ''The Glass Cannon''),
      ((Elite, Weak, Fast), ''The Glass Cannon''),
      ((Elite, Weak, Slow), ''The Glass Cannon''),
      ((Elite, Weak, Medium), ''The Glass Cannon''),
      ((Good, Elite, Fast), ''The Crusher''),
      ((Good, Elite, Slow), ''The Wall''),
      ((Good, Elite, Medium), ''The Wall''),
      ((Average, Elite, Fast), ''The Lockdown''),
      ((Average, Elite, Slow), ''The Lockdown''),
      ((Average, Elite, Medium), ''The Lockdown''),
      ((Below_Average, Elite, Fast), ''The Grinder''),
      ((Below_Average, Elite, Slow), ''The Grinder''),
      ((Below_Average, Elite, Medium), ''The Grinder''),
      ((Weak, Elite, Fast), ''The Brick House''),
      ((Weak, Elite, Slow), ''The Brick House''),
      ((Weak, Elite, Medium), ''The Brick House''),
      ((Good, Good, Fast), ''The Balanced Threat''),
      ((Good, Good, Slow), ''The Fundamentals''),
      ((Good, Good, Medium), ''The All-Arounder''),
      ((Good, Average, Fast), ''The Run-and-Gun''),
      ((Good, Average, Slow), ''The Half-Court Hero''),
      ((Good, Average, Medium), ''The Scorer''),
      ((Good, Below_Average, Fast), ''The Run-and-Gun''),
      ((Good, Below_Average, Slow), ''The Half-Court Hero''),
      ((Good, Below_Average, Medium), ''The Scorer''),
      ((Good, Weak, Fast), ''The Run-and-Gun''),
      ((Good, Weak, Slow), ''The Half-Court Hero''),
      ((Good, Weak, Medium), ''The Scorer''),
      ((Average, Good, Fast), ''The Pressure Cooker''),
      ((Average, Good, Slow), ''The Suffocator''),
      ((Average, Good, Medium), ''The Defender''),
      ((Below_Average, Good, Fast), ''The Pressure Cooker''),
      ((Below_Average, Good, Slow), ''The Suffocator''),
      ((Below_Average, Good, Medium), ''The Defender''),
      ((Weak, Good, Fast), ''The Defense-First''),
      ((Weak, Good, Slow), ''The Defense-First''),
      ((Weak, Good, Medium), ''The Defense-First''),
      ((Average, Average, Fast), ''The Scrappy Squad''),
      ((Average, Average, Slow), ''The Plodder''),
      ((Average, Average, Medium), ''The Mid-Pack''),
      ((Average, Below_Average, Fast), ''The Offensive Minded''),
      ((Average, Below_Average, Slow), ''The Offensive Minded''),
      ((Average, Below_Average, Medium), ''The Offensive Minded''),
      ((Below_Average, Average, Fast), ''The Defensive Minded''),
      ((Below_Average, Average, Slow), ''The Defensive Minded''),
      ((Below_Average, Average, Medium), ''The Defensive Minded''),
      ((Below_Average, Below_Average, Fast), ''The Underdog''),
      ((Below_Average, Below_Average, Slow), ''The Underdog''),
      ((Below_Average, Below_Average, Medium), ''The Underdog'')]"

text \<open>
  The fixed label set: the keys of \<^verbatim>\<open>ArchetypeEngine.ARCHETYPE_DESCRIPTIONS\<close>, in the
  order of the source.
\<close>

definition ARCHETYPE_LABELS :: "string list" where
  "ARCHETYPE_LABELS =
     [''The Juggernaut'', ''The Fortress'', ''The Powerhouse'', ''The Sharpshooter'',
      ''The Sniper'', ''The Gunslinger'', ''The Glass Cannon'', ''The Crusher'',
      ''The Wall'', ''The Lockdown'', ''The Grinder'', ''The Brick House'',
      ''The Balanced Threat'', ''The Fundamentals'', ''The All-Arounder'',
      ''The Run-and-Gun'', ''The Half-Court Hero'', ''The Scorer'',
      ''The Pressure Cooker'', ''The Suffocator'', ''The Defender'',
      ''The Scrappy Squad'', ''The Plodder'', ''The Mid-Pack'',
      ''The Offensive Minded'', ''The Defensive Minded'', ''The Underdog'',
      ''The Cinderella Hopeful'', ''The Defense-First'', ''The Offense-Only'']"

text \<open>The rank thresholds handed to \<^verbatim>\<open>get_tier\<close>; every caller passes all four keys.\<close>

record thresholds =
  elite :: real
  good :: real
  average :: real
  below_avg :: real

text \<open>\<^verbatim>\<open>ArchetypeEngine.get_tier\<close>; a rank that is NaN or absent is \<^term>\<open>None\<close>.\<close>

definition get_tier :: "real option \<Rightarrow> thresholds \<Rightarrow> tier" where
  "get_tier rank th =
     (case rank of
        None \<Rightarrow> Average
      | Some r \<Rightarrow>
          if r \<le> elite th then Elite
          else if r \<le> good th then Good
          else if r \<le> average th then Average
          else if r \<le> below_avg th then Below_Average
          else Weak)"

text \<open>\<^verbatim>\<open>ArchetypeEngine.get_tempo\<close>.\<close>

definition get_tempo :: "real option \<Rightarrow> tempo" where
  "get_tempo rank =
     (case rank of
        None \<Rightarrow> Medium
      | Some r \<Rightarrow> if r \<le> 100 then Fast else if r \<le> 250 then Medium else Slow)"

text \<open>
  The part of \<^verbatim>\<open>ArchetypeEngine.assign_archetype\<close> after the three tiers are known:
  the table lookup, the test \<^verbatim>\<open>if name:\<close> (a label that is present and not the empty
  string), the three Weak fallbacks, and the final \<^verbatim>\<open>'The Unknown'\<close>.
\<close>

definition archetype_of_key :: "tier \<Rightarrow> tier \<Rightarrow> tempo \<Rightarrow> string" where
  "archetype_of_key off_tier def_tier tempo =
     (let name = map_of ARCHETYPE_MAP (off_tier, def_tier, tempo)
      in if (case name of None \<Rightarrow> False | Some n \<Rightarrow> n \<noteq> [])
         then the name
         else if Weak \<in> set [off_tier, def_tier]
         then (if off_tier = Weak \<and> def_tier = Weak then ''The Cinderella Hopeful''
               else if off_tier = Weak then ''The Defense-First''
               else ''The Offense-Only'')
         else ''The Unknown'')"

text \<open>The three rank columns that \<^verbatim>\<open>assign_archetype\<close> reads from a row.\<close>

record rank_row =
  RankAdjOE :: "real option"
  RankAdjDE :: "real option"
  RankAdjTempo :: "real option"

definition assign_archetype :: "rank_row \<Rightarrow> string" where
  "assign_archetype row =
     (let th = \<lparr>elite = 25, good = 75, average = 150, below_avg = 250\<rparr>;
          off_tier = get_tier (RankAdjOE row) th;
          def_tier = get_tier (RankAdjDE row) th;
          tempo = get_tempo (RankAdjTempo row)
      in archetype_of_key off_tier def_tier tempo)"

section \<open>Archetype matchup matrix\<close>

text \<open>
  A value of the \<^verbatim>\<open>defaultdict(lambda: {'wins': 0, 'total': 0})\<close> of
  \<^verbatim>\<open>build_matchup_matrix\<close>, and the same dictionary once \<^verbatim>\<open>win_rate\<close> is stored in it.
\<close>

record cell =
  wins :: int
  total :: int

record entry = cell +
  win_rate :: real

type_synonym matrix = "string \<times> string \<rightharpoonup> cell"

text \<open>Reading \<^verbatim>\<open>matrix[key]\<close>: the stored cell, or a fresh one.\<close>

definition cell_of :: "matrix \<Rightarrow> string \<times> string \<Rightarrow> cell" where
  "cell_of m key = (case m key of None \<Rightarrow> \<lparr>wins = 0, total = 0\<rparr> | Some c \<Rightarrow> c)"

text \<open>\<^verbatim>\<open>matrix[key]['total'] += 1\<close> and \<^verbatim>\<open>matrix[key]['wins'] += n\<close>.\<close>

definition add_total :: "matrix \<Rightarrow> string \<times> string \<Rightarrow> matrix" where
  "add_total m key = m(key \<mapsto> (cell_of m key)\<lparr>total := total (cell_of m key) + 1\<rparr>)"

definition add_wins :: "matrix \<Rightarrow> string \<times> string \<Rightarrow> int \<Rightarrow> matrix" where
  "add_wins m key n = m(key \<mapsto> (cell_of m key)\<lparr>wins := wins (cell_of m key) + n\<rparr>)"

section \<open>Game table\<close>

text \<open>
  The box-score counts of one side of a game: the columns \<^verbatim>\<open>FGM\<close>, \<^verbatim>\<open>FGA\<close>, \<^verbatim>\<open>FGM3\<close>,
  \<^verbatim>\<open>FGA3\<close>, \<^verbatim>\<open>FTM\<close>, \<^verbatim>\<open>FTA\<close>, \<^verbatim>\<open>OR\<close>, \<^verbatim>\<open>DR\<close>, \<^verbatim>\<open>Ast\<close>, \<^verbatim>\<open>TO\<close>, \<^verbatim>\<open>Stl\<close>, \<^verbatim>\<open>Blk\<close>, \<^verbatim>\<open>PF\<close>
  that the detailed-results files carry once with the prefix \<^verbatim>\<open>W\<close> and once with the
  prefix \<^verbatim>\<open>L\<close>.
\<close>

record box =
  FGM :: int
  FGA :: int
  FGM3 :: int
  FGA3 :: int
  FTM :: int
  FTA :: int
  OR :: int
  DR :: int
  Ast :: int
  TO :: int
  Stl :: int
  Blk :: int
  PF :: int

text \<open>
  A row of \<^verbatim>\<open>MRegularSeasonDetailedResults\<close> or \<^verbatim>\<open>MNCAATourneyDetailedResults\<close>;
  \<open>WBox\<close> holds the \<^verbatim>\<open>W...\<close> box-score columns and \<open>LBox\<close> the \<^verbatim>\<open>L...\<close> ones
  (\<^verbatim>\<open>WOR\<close> is \<open>OR (WBox g)\<close>, \<^verbatim>\<open>LTO\<close> is \<open>TO (LBox g)\<close>, and so on).
\<close>

record game =
  Season :: int
  DayNum :: int
  WTeamID :: int
  WScore :: int
  LTeamID :: int
  LScore :: int
  WLoc :: string
  WBox :: box
  LBox :: box

text \<open>
  \<^verbatim>\<open>df[df['Season'] == season].sort_values('DayNum')\<close>. The sort is modelled as a
  stable sort; the order pandas gives to games of one day is not part of the model.
\<close>

definition season_games :: "game list \<Rightarrow> int \<Rightarrow> game list" where
  "season_games regular season = sort_key DayNum (filter (\<lambda>g. Season g = season) regular)"


section \<open>Rating engine of the unified pipeline\<close>

definition ELO_BASE :: real where "ELO_BASE = 1000"
definition ELO_WIDTH :: real where "ELO_WIDTH = 400"
definition ELO_K :: real where "ELO_K = 100"
definition ELO_DECAY :: real where "ELO_DECAY = 0.33"

text \<open>
  A rating dictionary maps team identifiers to ratings. \<open>rating base elo t\<close> is the
  rating of team \<open>t\<close>, a team without an entry having the rating \<open>base\<close>.
\<close>

type_synonym elo_dict = "int \<rightharpoonup> real"

definition rating :: "real \<Rightarrow> elo_dict \<Rightarrow> int \<Rightarrow> real" where
  "rating base elo t = (case elo t of None \<Rightarrow> base | Some r \<Rightarrow> r)"

text \<open>
  Reading \<^verbatim>\<open>elo[t]\<close> from \<^verbatim>\<open>defaultdict(lambda: Config.ELO_BASE)\<close> stores the default
  for a key that is missing.
\<close>

definition dd_touch :: "elo_dict \<Rightarrow> int \<Rightarrow> elo_dict" where
  "dd_touch elo t = (case elo t of None \<Rightarrow> elo(t \<mapsto> ELO_BASE) | Some r \<Rightarrow> elo)"

text \<open>
  The body of the loop over the games of a season in \<^verbatim>\<open>compute_elo\<close>: the expression for
  \<^verbatim>\<open>ew\<close> reads \<^verbatim>\<open>elo[l]\<close> and then \<^verbatim>\<open>elo[w]\<close>; \<^verbatim>\<open>elo[w] += update\<close> and
  \<^verbatim>\<open>elo[l] -= update\<close> follow in this order.
\<close>

definition elo_game :: "elo_dict \<Rightarrow> game \<Rightarrow> elo_dict" where
  "elo_game elo g =
     (let w = WTeamID g; l = LTeamID g;
          elo1 = dd_touch (dd_touch elo l) w;
          ew = 1 / (1 + 10 powr ((rating ELO_BASE elo1 l - rating ELO_BASE elo1 w) / ELO_WIDTH));
          mov_mult = ln (real_of_int (\<bar>WScore g - LScore g\<bar> + 1));
          update = ELO_K * mov_mult * (1 - ew);
          elo2 = elo1(w \<mapsto> rating ELO_BASE elo1 w + update);
          elo3 = elo2(l \<mapsto> rating ELO_BASE elo2 l - update)
      in elo3)"

text \<open>
  The regression at the start of a season:
  \<^verbatim>\<open>for team in list(elo.keys()): elo[team] = ELO_BASE + ELO_DECAY * (elo[team] - ELO_BASE)\<close>.
\<close>

definition season_start :: "elo_dict \<Rightarrow> elo_dict" where
  "season_start elo = (\<lambda>t. map_option (\<lambda>r. ELO_BASE + ELO_DECAY * (r - ELO_BASE)) (elo t))"

text \<open>One iteration of the loop over seasons, up to the snapshot.\<close>

definition elo_season :: "game list \<Rightarrow> int \<Rightarrow> elo_dict \<Rightarrow> elo_dict" where
  "elo_season regular season elo =
     fold (\<lambda>g e. elo_game e g) (season_games regular season) (season_start elo)"

text \<open>
  The rows \<^verbatim>\<open>{'Season': s, 'TeamID': t, 'elo': r}\<close> collected in \<^verbatim>\<open>season_elos\<close> are
  modelled by a map from \<open>(s, t)\<close> to \<open>r\<close>: the frame is only ever merged on these two
  columns and no pair is appended twice.
\<close>

type_synonym elo_frame = "int \<times> int \<rightharpoonup> real"

definition snapshot :: "elo_frame \<Rightarrow> int \<Rightarrow> elo_dict \<Rightarrow> elo_frame" where
  "snapshot acc season elo = (\<lambda>(s, t). if s = season then elo t else acc (s, t))"

text \<open>
  The loop \<^verbatim>\<open>for season in seasons\<close> with its \<^verbatim>\<open>break\<close> at the first season that is not
  before the backtest season.
\<close>

fun elo_seasons :: "game list \<Rightarrow> int \<Rightarrow> elo_dict \<Rightarrow> elo_frame \<Rightarrow> int list
    \<Rightarrow> elo_dict \<times> elo_frame" where
  "elo_seasons regular backtest_season elo acc [] = (elo, acc)"
| "elo_seasons regular backtest_season elo acc (season # rest) =
     (if season \<ge> backtest_season then (elo, acc)
      else let elo' = elo_season regular season elo
           in elo_seasons regular backtest_season elo' (snapshot acc season elo') rest)"

text \<open>\<^verbatim>\<open>compute_elo(regular, backtest_season)\<close> of the unified pipeline.\<close>

definition compute_elo :: "game list \<Rightarrow> int \<Rightarrow> elo_frame" where
  "compute_elo regular backtest_season =
     (let seasons = sort (remdups (map Season regular));
          (elo, acc) = elo_seasons regular backtest_season Map.empty Map.empty seasons
      in snapshot acc backtest_season (season_start elo))"


section \<open>Rating engine of the v2 script\<close>

definition K_v2 :: real where "K_v2 = 32"
definition HOME_ADV :: real where "HOME_ADV = 3"

text \<open>\<^verbatim>\<open>if t not in elo: elo[t] = 1500\<close>.\<close>

definition init_v2 :: "elo_dict \<Rightarrow> int \<Rightarrow> elo_dict" where
  "init_v2 elo t = (case elo t of None \<Rightarrow> elo(t \<mapsto> 1500) | Some r \<Rightarrow> elo)"

text \<open>
  The body of the loop over games in the v2 \<^verbatim>\<open>compute_elo\<close>. The factor
  \<^verbatim>\<open>2.2 / (0.001 * (elo[w] - elo[l]) + 2.2)\<close> has no value when its denominator is zero
  (NumPy yields an infinity or a NaN there); the model returns \<^term>\<open>None\<close>.
\<close>

definition elo_game_v2 :: "elo_dict \<Rightarrow> game \<Rightarrow> elo_dict option" where
  "elo_game_v2 elo g =
     (let w = WTeamID g; l = LTeamID g;
          elo1 = init_v2 elo w;
          elo2 = init_v2 elo1 l;
          loc = WLoc g;
          adv = (if loc = ''H'' then HOME_ADV else if loc = ''A'' then - HOME_ADV else 0);
          expected_w = 1 / (1 + 10 powr ((rating 1500 elo2 l - rating 1500 elo2 w - adv) / 400));
          margin = WScore g - LScore g;
          den = 0.001 * (rating 1500 elo2 w - rating 1500 elo2 l) + 2.2
      in if den = 0 then None
         else let mov_mult = ln (real_of_int (\<bar>margin\<bar> + 1)) * (2.2 / den);
                  update = K_v2 * mov_mult * (1 - expected_w);
                  elo3 = elo2(w \<mapsto> rating 1500 elo2 w + update);
                  elo4 = elo3(l \<mapsto> rating 1500 elo3 l - update)
              in Some elo4)"

text \<open>
  The regression at the start of a season:
  \<^verbatim>\<open>for tid in elo: elo[tid] = elo[tid] * 0.75 + 1500 * 0.25\<close>.
\<close>

definition season_start_v2 :: "elo_dict \<Rightarrow> elo_dict" where
  "season_start_v2 elo = (\<lambda>t. map_option (\<lambda>r. r * 0.75 + 1500 * 0.25) (elo t))"

fun elo_games_v2 :: "elo_dict \<Rightarrow> game list \<Rightarrow> elo_dict option" where
  "elo_games_v2 elo [] = Some elo"
| "elo_games_v2 elo (g # gs) =
     (case elo_game_v2 elo g of None \<Rightarrow> None | Some elo' \<Rightarrow> elo_games_v2 elo' gs)"

fun elo_seasons_v2 :: "game list \<Rightarrow> elo_dict \<Rightarrow> int list \<Rightarrow> elo_dict option" where
  "elo_seasons_v2 reg elo [] = Some elo"
| "elo_seasons_v2 reg elo (season # rest) =
     (case elo_games_v2 (season_start_v2 elo) (season_games reg season) of
        None \<Rightarrow> None
      | Some elo' \<Rightarrow> elo_seasons_v2 reg elo' rest)"

text \<open>
  \<^verbatim>\<open>compute_elo(reg, through_season)\<close> of the v2 script; the seasons are
  \<^verbatim>\<open>range(2003, through_season + 1)\<close>.
\<close>

definition compute_elo_v2 :: "game list \<Rightarrow> int \<Rightarrow> elo_dict option" where
  "compute_elo_v2 reg through_season = elo_seasons_v2 reg Map.empty [2003..through_season]"

section \<open>Matchup table and the data handed to model fitting\<close>

text \<open>
  A row of the matchup table \<^verbatim>\<open>td\<close> built by \<^verbatim>\<open>build_matchup_features\<close>: the season, the
  canonical team pair, the two labels \<^verbatim>\<open>PointDiff\<close> and \<^verbatim>\<open>T1_won\<close>, the two archetypes,
  and the numeric feature columns.
\<close>

record td_row =
  td_Season :: int
  T1_TeamID :: int
  T2_TeamID :: int
  PointDiff :: int
  T1_won :: int
  T1_Archetype :: string
  T2_Archetype :: string
  features :: "real list"

text \<open>
  \<^verbatim>\<open>train['Season'].max()\<close>: the largest season of the rows, NaN (here \<^term>\<open>None\<close>) for
  an empty frame.
\<close>

definition max_season :: "td_row list \<Rightarrow> int option" where
  "max_season rows = (if rows = [] then None else Some (Max (set (map td_Season rows))))"

text \<open>
  The first lines of \<^verbatim>\<open>train_model\<close>: the split of \<^verbatim>\<open>td\<close> into \<^verbatim>\<open>train\<close> and \<^verbatim>\<open>test\<close>,
  with the fallback to the last available season when the backtest season has no row.
  A comparison with NaN is false, so an empty \<^verbatim>\<open>train\<close> gives two empty frames.
\<close>

definition train_test_split :: "td_row list \<Rightarrow> int \<Rightarrow> td_row list \<times> td_row list" where
  "train_test_split td backtest_season =
     (let train = filter (\<lambda>r. td_Season r < backtest_season) td;
          test = filter (\<lambda>r. td_Season r = backtest_season) td
      in if length test = 0
         then (case max_season train of
                 None \<Rightarrow> ([], [])
               | Some last_season \<Rightarrow>
                   (filter (\<lambda>r. td_Season r < last_season) train,
                    filter (\<lambda>r. td_Season r = last_season) train))
         else (train, test))"

text \<open>
  The rows each fitting call of \<^verbatim>\<open>train_model\<close> receives. The estimators themselves
  belong to external libraries; the model records their inputs:
  \<^item> \<open>xgb_dtrain\<close>: \<^verbatim>\<open>dtrain\<close>, the training matrix of \<^verbatim>\<open>xgb.train\<close>;
  \<^item> \<open>xgb_evals\<close>: \<^verbatim>\<open>dtest\<close>, which \<^verbatim>\<open>xgb.train\<close> receives with its labels as
    \<^verbatim>\<open>evals=[(dtest, 'test')]\<close> for \<^verbatim>\<open>early_stopping_rounds=30\<close>;
  \<^item> \<open>clf_fit\<close>: the rows of \<^verbatim>\<open>lgb_model.fit\<close> (or \<^verbatim>\<open>rf_model.fit\<close>);
  \<^item> \<open>leaf_fit\<close>: the rows of \<^verbatim>\<open>tfidf.fit_transform\<close> and \<^verbatim>\<open>leaf_lr.fit\<close>;
  \<^item> \<open>meta_fit\<close>: the rows whose base-model outputs \<^verbatim>\<open>meta_lr.fit\<close> is given.
\<close>

record fit_inputs =
  xgb_dtrain :: "td_row list"
  xgb_evals :: "td_row list"
  clf_fit :: "td_row list"
  leaf_fit :: "td_row list"
  meta_fit :: "td_row list"

definition train_model_inputs :: "td_row list \<Rightarrow> int \<Rightarrow> fit_inputs" where
  "train_model_inputs td backtest_season =
     (let (train, test) = train_test_split td backtest_season
      in \<lparr>xgb_dtrain = train, xgb_evals = test, clf_fit = train, leaf_fit = train,
          meta_fit = train\<rparr>)"

text \<open>
  The v2 script: \<^verbatim>\<open>main\<close> passes \<^verbatim>\<open>trn[trn['Season'] < 2025]\<close> to
  \<^verbatim>\<open>build_training_data\<close>, which builds one training row per tournament game of the
  seasons \<^verbatim>\<open>range(2003, 2025)\<close>; the three models are fitted on these rows with no
  evaluation set.
\<close>

definition training_games_v2 :: "game list \<Rightarrow> game list" where
  "training_games_v2 trn =
     (let trn_train = filter (\<lambda>g. Season g < 2025) trn
      in concat (map (\<lambda>season. filter (\<lambda>g. Season g = season) trn_train) [2003..2024]))"

section \<open>Building the archetype matchup matrix\<close>

text \<open>
  The body of the loop over the rows of \<^verbatim>\<open>tourney_df\<close>; \<^verbatim>\<open>T1_won\<close> is an integer
  column, so \<^verbatim>\<open>int(won)\<close> is \<open>won\<close> and \<^verbatim>\<open>int(1 - won)\<close> is \<open>1 - won\<close>.
\<close>

definition matrix_row :: "matrix \<Rightarrow> td_row \<Rightarrow> matrix" where
  "matrix_row m row =
     (let a1 = T1_Archetype row; a2 = T2_Archetype row; won = T1_won row;
          m = add_total m (a1, a2);
          m = add_wins m (a1, a2) won;
          m = add_total m (a2, a1);
          m = add_wins m (a2, a1) (1 - won)
      in m)"

text \<open>\<^verbatim>\<open>val['wins'] / val['total'] if val['total'] > 0 else 0.5\<close>.\<close>

definition with_win_rate :: "cell \<Rightarrow> entry" where
  "with_win_rate val =
     \<lparr>wins = wins val, total = total val,
      win_rate = (if total val > 0 then real_of_int (wins val) / real_of_int (total val)
                  else 0.5)\<rparr>"

text \<open>
  \<^verbatim>\<open>ArchetypeEngine.build_matchup_matrix(tourney_df)\<close>. The source stores the entry of
  the pair \<open>(a, b)\<close> under the string \<^verbatim>\<open>f"{a}__vs__{b}"\<close>; the model keeps the pair as
  the key, which names the same entry as long as no archetype label contains
  \<^verbatim>\<open>__vs__\<close>, as is the case for every label of the classifier.
\<close>

definition build_matchup_matrix :: "td_row list \<Rightarrow> (string \<times> string \<rightharpoonup> entry)" where
  "build_matchup_matrix tourney_df =
     (let matrix = fold (\<lambda>row m. matrix_row m row) tourney_df Map.empty
      in (\<lambda>key. map_option with_win_rate (matrix key)))"

text \<open>
  The invariant of the loop: an entry exists exactly when its total is positive; the two
  orientations of a pair of distinct archetypes have the same total and wins that add up
  to it; a same-archetype entry has a total of twice its wins.
\<close>

definition matrix_inv :: "matrix \<Rightarrow> bool" where
  "matrix_inv m =
     (\<forall>a b. (m (a, b) = None \<or> 0 < total (cell_of m (a, b)))
        \<and> total (cell_of m (a, b)) = total (cell_of m (b, a))
        \<and> (a = b \<or> wins (cell_of m (a, b)) + wins (cell_of m (b, a)) = total (cell_of m (a, b)))
        \<and> total (cell_of m (a, a)) = 2 * wins (cell_of m (a, a))
        \<and> (m (a, b) = None) = (m (b, a) = None))"

section \<open>Injury and context adjustment layer\<close>

text \<open>
  A row of the frame returned by \<^verbatim>\<open>build_team_summary\<close>; \<^verbatim>\<open>lookup.get(name)\<close> yields such a
  row or \<^verbatim>\<open>None\<close>. Every column is present in every row, so the defaults of the
  \<^verbatim>\<open>row.get(column, default)\<close> calls are never used.
\<close>

record team_summary_row =
  team :: string
  star_player :: string
  star_player_bpm :: real
  star_player_usg :: real
  star_player_ppg :: real
  star_dependency_pct :: real
  top2_dependency_pct :: real
  team_total_bpm :: real
  star_is_injured :: bool
  n_injured :: int
  n_out :: int
  n_questionable :: int
  team_total_injury_bpm :: real
  star_injury_bpm :: real
  injured_players_list :: string
  injured_statuses :: string
  upset_vulnerability :: real

text \<open>\<^verbatim>\<open>compute_injury_adj(row)\<close>; \<^verbatim>\<open>x or 1\<close> replaces a zero \<open>x\<close> by 1.\<close>

definition compute_injury_adj :: "team_summary_row option \<Rightarrow> real" where
  "compute_injury_adj row_opt =
     (case row_opt of
        None \<Rightarrow> 0
      | Some row \<Rightarrow>
          (let adj = 0;
               adj = (if star_is_injured row
                      then (let dep = star_dependency_pct row / 100;
                                bpm = star_player_bpm row;
                                bpm_factor = min (bpm / 4) 1;
                                scale = (if dep \<ge> 0.50 then 0.12 else 0.07)
                            in adj - scale * bpm_factor * dep)
                      else adj);
               total_inj = team_total_injury_bpm row;
               total_bpm = (if team_total_bpm row = 0 then 1 else team_total_bpm row);
               adj = adj - 0.08 * min (total_inj / total_bpm) 0.5
           in py_round (clip adj (- 0.15) 0) 4))"

text \<open>\<^verbatim>\<open>get_confidence(prob)\<close>.\<close>

definition get_confidence :: "real \<Rightarrow> string" where
  "get_confidence prob =
     (let p = max prob (1 - prob)
      in if p \<ge> 0.85 then ''lock''
         else if p \<ge> 0.72 then ''strong''
         else if p \<ge> 0.60 then ''lean''
         else if p \<ge> 0.52 then ''toss-up''
         else ''coin-flip'')"

text \<open>
  The dictionary built by \<^verbatim>\<open>build_injury_ctx(row, team_name)\<close>. Keys that the dictionary
  lacks when \<^verbatim>\<open>row\<close> is \<^verbatim>\<open>None\<close> are optional fields. The key \<^verbatim>\<open>injured_players\<close>, a list
  of display strings cut out of \<^verbatim>\<open>injured_statuses\<close>, is not modelled.
\<close>

record injury_ctx =
  ctx_team :: string
  ctx_has_injuries :: bool
  ctx_star_is_injured :: bool
  ctx_star_player :: "string option"
  ctx_star_player_bpm :: "real option"
  ctx_star_dependency_pct :: "real option"
  ctx_n_injured :: int
  ctx_n_out :: "int option"
  ctx_team_injury_bpm_lost :: "real option"
  ctx_upset_vulnerability :: real

definition build_injury_ctx :: "team_summary_row option \<Rightarrow> string \<Rightarrow> injury_ctx" where
  "build_injury_ctx row_opt team_name =
     (case row_opt of
        None \<Rightarrow>
          \<lparr>ctx_team = team_name, ctx_has_injuries = False, ctx_star_is_injured = False,
           ctx_star_player = None, ctx_star_player_bpm = None,
           ctx_star_dependency_pct = None, ctx_n_injured = 0, ctx_n_out = None,
           ctx_team_injury_bpm_lost = None, ctx_upset_vulnerability = 0\<rparr>
      | Some row \<Rightarrow>
          \<lparr>ctx_team = team_name, ctx_has_injuries = (n_injured row > 0),
           ctx_star_is_injured = star_is_injured row,
           ctx_star_player = Some (star_player row),
           ctx_star_player_bpm = Some (star_player_bpm row),
           ctx_star_dependency_pct = Some (star_dependency_pct row),
           ctx_n_injured = n_injured row, ctx_n_out = Some (n_out row),
           ctx_team_injury_bpm_lost = Some (team_total_injury_bpm row),
           ctx_upset_vulnerability = upset_vulnerability row\<rparr>)"

text \<open>
  The upset classification. The source returns a formatted string; the model keeps which
  of the six formats is returned and the values put into it: the team and the star
  player for the two injury flags, the underdog's seed for the three seed flags.
\<close>

datatype upset_flag =
  INJURY_UPSET string string
  | INJURY_RISK string string
  | UPSET_ALERT int
  | UPSET_WATCH int
  | SLEEPER int
  | chalk

text \<open>\<^verbatim>\<open>ctx.get('star_player', 'star')\<close>.\<close>

definition star_or_default :: "injury_ctx \<Rightarrow> string" where
  "star_or_default ctx = (case ctx_star_player ctx of None \<Rightarrow> ''star'' | Some s \<Rightarrow> s)"

text \<open>\<^verbatim>\<open>compute_upset_flag_v2(s1, s2, prob, t1_ctx, t2_ctx)\<close>.\<close>

definition compute_upset_flag_v2 ::
    "int \<Rightarrow> int \<Rightarrow> real \<Rightarrow> injury_ctx \<Rightarrow> injury_ctx \<Rightarrow> upset_flag" where
  "compute_upset_flag_v2 s1 s2 prob t1_ctx t2_ctx =
     (let gap = \<bar>s1 - s2\<bar>;
          fav_prob = (if s1 \<le> s2 then prob else 1 - prob);
          dog = max s1 s2
      in if ctx_star_is_injured t2_ctx \<and> gap \<ge> 3
         then INJURY_UPSET (ctx_team t2_ctx) (star_or_default t2_ctx)
         else if ctx_star_is_injured t1_ctx \<and> gap \<ge> 3
         then INJURY_RISK (ctx_team t1_ctx) (star_or_default t1_ctx)
         else if fav_prob < 0.50 then UPSET_ALERT dog
         else if fav_prob < 0.60 \<and> gap \<ge> 3 then UPSET_WATCH dog
         else if gap \<ge> 4 \<and> fav_prob < 0.72 then SLEEPER dog
         else chalk)"

text \<open>
  An entry of \<^verbatim>\<open>chatbot_data['predictions']\<close>: the keys that the patching loop of
  \<^verbatim>\<open>run_step2\<close> reads or writes. The keys that step 2 adds are optional fields, absent
  (\<^term>\<open>None\<close>) before patching. The generated response texts are not modelled.
\<close>

record prediction =
  t1_name :: string
  t2_name :: string
  t1_seed :: int
  t2_seed :: int
  model_win_prob :: real
  confidence :: string
  upset_flag :: upset_flag
  predicted_winner_name :: string
  model_win_prob_original :: "real option"
  injury_adjusted :: "bool option"
  t1_injury_adj :: "real option"
  t2_injury_adj :: "real option"
  t1_injury :: "injury_ctx option"
  t2_injury :: "injury_ctx option"
  pick_flipped_by_injury :: "bool option"

text \<open>
  The body of the loop \<^verbatim>\<open>for pred in predictions\<close> of \<^verbatim>\<open>run_step2\<close>, given the two rows
  \<^verbatim>\<open>r1\<close> and \<^verbatim>\<open>r2\<close> that the lookup found for the two team names.
\<close>

definition patch_prediction ::
    "prediction \<Rightarrow> team_summary_row option \<Rightarrow> team_summary_row option \<Rightarrow> prediction" where
  "patch_prediction pred r1 r2 =
     (let t1_adj = compute_injury_adj r1;
          t2_adj = compute_injury_adj r2;
          base = model_win_prob pred;
          adj = py_round (clip (base + t1_adj - t2_adj) 0.02 0.98) 5;
          t1_ctx = build_injury_ctx r1 (t1_name pred);
          t2_ctx = build_injury_ctx r2 (t2_name pred);
          flipped = ((adj > 0.5) \<noteq> (base > 0.5))
      in pred\<lparr>model_win_prob_original := Some base,
              model_win_prob := adj,
              injury_adjusted := Some (t1_adj \<noteq> 0 \<or> t2_adj \<noteq> 0),
              t1_injury_adj := Some t1_adj,
              t2_injury_adj := Some t2_adj,
              t1_injury := Some t1_ctx,
              t2_injury := Some t2_ctx,
              upset_flag :=
                compute_upset_flag_v2 (t1_seed pred) (t2_seed pred) adj t1_ctx t2_ctx,
              confidence := get_confidence adj,
              pick_flipped_by_injury := Some flipped,
              predicted_winner_name :=
                (if flipped then (if adj > 0.5 then t1_name pred else t2_name pred)
                 else predicted_winner_name pred)\<rparr>)"

section \<open>Auxiliary fetches\<close>

text \<open>
  The outcome of the \<^verbatim>\<open>try\<close> block around a network fetch (\<^verbatim>\<open>requests.get\<close> with its
  timeout, \<^verbatim>\<open>raise_for_status\<close>, \<^verbatim>\<open>resp.json()\<close>): an exception, or the decoded payload.
  The network is outside the model; the outcome is an input.
\<close>

datatype 'a response = Failed | Fetched 'a

text \<open>An exception raised outside the \<^verbatim>\<open>try\<close> blocks, which ends the run.\<close>

datatype error = KeyError string | IndexError

text \<open>
  The Barttorvik payload is a list of rows, each a list of values in the order of
  \<^verbatim>\<open>columns\<close>. A row of the model holds the columns that step 2 reads: the two names, and
  four of the numeric columns with the value they have after
  \<^verbatim>\<open>pd.to_numeric(df[col], errors="coerce").fillna(0)\<close>. A payload of another shape
  (not a list of rows, or rows too short to have these columns) is not covered by the
  model.
\<close>

record player_entry =
  pl_player :: string
  pl_team :: string
  pl_bpm :: real
  pl_min_pct :: real
  pl_usg :: real
  pl_ppg :: real

text \<open>
  The column \<^verbatim>\<open>df["weighted_bpm"] = df["bpm"] * (df["min_pct"] / 100)\<close>. The two columns
  it is computed from are not changed afterwards, so the model computes the value where
  the column is read.
\<close>

definition weighted_bpm :: "'a player_entry_scheme \<Rightarrow> real" where
  "weighted_bpm p = pl_bpm p * (pl_min_pct p / 100)"

text \<open>
  The keys of \<^verbatim>\<open>df.groupby(column)\<close> in the order in which the groups are visited: the
  distinct values, sorted. Strings are ordered as sequences of character codes.
\<close>

definition group_keys :: "string list \<Rightarrow> string list" where
  "group_keys ks = sort (remdups ks)"

text \<open>
  \<^verbatim>\<open>grp.sort_values(column, ascending=False)\<close>. The sort is modelled as a stable sort:
  rows with equal values keep their order; the order pandas gives them is not part of the
  model.
\<close>

definition sort_desc :: "('a \<Rightarrow> real) \<Rightarrow> 'a list \<Rightarrow> 'a list" where
  "sort_desc f xs = sort_key (\<lambda>x. - f x) xs"

text \<open>A row of \<^verbatim>\<open>team_dep\<close>, and the dictionary that the loop over the groups appends.\<close>

record team_dep_row =
  dep_team :: string
  dep_team_total_bpm :: real
  dep_star_player :: string
  dep_star_player_bpm :: real
  dep_star_player_usg :: real
  dep_star_player_ppg :: real
  dep_star_dependency_pct :: real
  dep_top2_dependency_pct :: real

definition team_dep_row_of :: "string \<Rightarrow> player_entry list \<Rightarrow> team_dep_row" where
  "team_dep_row_of team_name grp =
     (let s = sort_desc weighted_bpm grp;
          pos = filter (\<lambda>p. weighted_bpm p > 0) s;
          total_bpm = sum_list (map weighted_bpm pos);
          top1 = (if length s > 0 then weighted_bpm (hd s) else 0);
          top2 = (if length s > 1 then sum_list (map weighted_bpm (take 2 s)) else top1)
      in \<lparr>dep_team = team_name,
          dep_team_total_bpm = py_round total_bpm 3,
          dep_star_player = (if length s > 0 then pl_player (hd s) else []),
          dep_star_player_bpm = py_round top1 3,
          dep_star_player_usg = (if length s > 0 then py_round (pl_usg (hd s)) 1 else 0),
          dep_star_player_ppg = (if length s > 0 then py_round (pl_ppg (hd s)) 1 else 0),
          dep_star_dependency_pct =
            py_round (if total_bpm > 0 then top1 / total_bpm * 100 else 50) 1,
          dep_top2_dependency_pct =
            py_round (if total_bpm > 0 then top2 / total_bpm * 100 else 50) 1\<rparr>)"

text \<open>
  A row of the player frame that \<^verbatim>\<open>fetch_player_stats\<close> returns: the player's columns
  and the columns of the team's row of \<^verbatim>\<open>team_dep\<close>.
\<close>

record player_row = player_entry +
  team_dep_cols :: team_dep_row

text \<open>
  \<^verbatim>\<open>df.merge(team_dep, on="team", how="left")\<close>, when \<^verbatim>\<open>team_dep\<close> has the column
  \<^verbatim>\<open>team\<close>: a player's row is joined with the rows of \<^verbatim>\<open>team_dep\<close> for its team.
  \<^verbatim>\<open>how="left"\<close> would keep a player whose team has no row, with NaN in the added
  columns; \<^verbatim>\<open>team_dep\<close> has exactly one row for every team of \<^verbatim>\<open>df\<close>, so every player
  is joined with one row.
\<close>

definition merge_team_dep :: "player_entry list \<Rightarrow> team_dep_row list \<Rightarrow> player_row list" where
  "merge_team_dep df team_dep =
     concat (map (\<lambda>p. map (\<lambda>d.
                    \<lparr>pl_player = pl_player p, pl_team = pl_team p, pl_bpm = pl_bpm p,
                     pl_min_pct = pl_min_pct p, pl_usg = pl_usg p, pl_ppg = pl_ppg p,
                     team_dep_cols = d\<rparr>)
                  (filter (\<lambda>d. dep_team d = pl_team p) team_dep)) df)"

text \<open>
  \<^verbatim>\<open>fetch_player_stats(year)\<close>. On an exception of the fetch the \<^verbatim>\<open>except Exception\<close>
  clause returns two empty frames. The rest of the function is outside the \<^verbatim>\<open>try\<close>
  block: when no row was appended to \<^verbatim>\<open>team_rows\<close>, \<^verbatim>\<open>pd.DataFrame(team_rows)\<close> has no
  column and the merge on \<^verbatim>\<open>team\<close> raises \<^verbatim>\<open>KeyError\<close>. The year only enters the URL and
  the column \<^verbatim>\<open>year\<close>, which step 2 does not read.
\<close>

definition fetch_player_stats ::
    "int \<Rightarrow> player_entry list response \<Rightarrow> error + player_row list \<times> team_dep_row list" where
  "fetch_player_stats year resp =
     (case resp of
        Failed \<Rightarrow> Inr ([], [])
      | Fetched data \<Rightarrow>
          (let df = data;
               team_rows = map (\<lambda>team_name.
                                 team_dep_row_of team_name
                                   (filter (\<lambda>p. pl_team p = team_name) df))
                             (group_keys (map pl_team df));
               team_dep = team_rows
           in if team_dep = [] then Inl (KeyError ''team'')
              else Inr (merge_team_dep df team_dep, team_dep)))"

text \<open>
  The ESPN payload: \<^verbatim>\<open>data.get("injuries", [])\<close> is a list of team entries, each with the
  team's names and its list of injuries.
\<close>

record espn_injury =
  athlete_displayName :: string
  athlete_position :: string
  status :: string
  details_type :: string
  details_detail :: string
  details_returnDate :: string
  shortComment :: string

record espn_team_entry =
  team_displayName :: string
  team_abbreviation :: string
  team_injuries :: "espn_injury list"

text \<open>
  A dictionary appended to \<^verbatim>\<open>records\<close> by \<^verbatim>\<open>fetch_injuries_espn\<close>, and a row of the
  frame it returns, which has the column \<^verbatim>\<open>severity\<close> in addition.
\<close>

record injury_record =
  team_espn :: string
  team_abbr :: string
  player :: string
  position :: string
  injury_status :: string
  injury_type :: string
  injury_detail :: string
  return_date :: string
  short_comment :: string

record injury_row = injury_record +
  severity :: int

text \<open>The records that the inner loop appends for one team entry.\<close>

definition injury_records :: "espn_team_entry \<Rightarrow> injury_record list" where
  "injury_records team_entry =
     map (\<lambda>inj.
           \<lparr>team_espn = team_displayName team_entry,
            team_abbr = team_abbreviation team_entry,
            player = athlete_displayName inj,
            position = athlete_position inj,
            injury_status = status inj,
            injury_type = details_type inj,
            injury_detail = details_detail inj,
            return_date = details_returnDate inj,
            short_comment = shortComment inj\<rparr>)
         (team_injuries team_entry)"

text \<open>
  The \<^verbatim>\<open>try\<close> block of \<^verbatim>\<open>fetch_injuries_espn\<close> holds the fetch and the loop over the
  payload. It ends in one of three ways: the fetch fails (an exception of
  \<^verbatim>\<open>requests.get\<close>, \<^verbatim>\<open>raise_for_status\<close> or \<^verbatim>\<open>resp.json()\<close>, before any record is
  appended); the payload is fetched and the loop runs to its end; or the payload is
  fetched but its shape makes the loop raise, after the given records were appended.
\<close>

datatype espn_outcome =
  Espn_failed
  | Espn_fetched "espn_team_entry list"
  | Espn_interrupted "injury_record list"

definition espn_records :: "espn_outcome \<Rightarrow> injury_record list" where
  "espn_records outcome =
     (case outcome of
        Espn_failed \<Rightarrow> []
      | Espn_fetched data \<Rightarrow> concat (map injury_records data)
      | Espn_interrupted records \<Rightarrow> records)"

text \<open>\<^verbatim>\<open>df["injury_status"].map(severity_map).fillna(1).astype(int)\<close>.\<close>

definition severity_map :: "(string \<times> int) list" where
  "severity_map =
     [(''Out'', 3), (''Doubtful'', 2), (''Questionable'', 2), (''Day-To-Day'', 1), (''GTD'', 1)]"

definition with_severity :: "injury_record \<Rightarrow> injury_row" where
  "with_severity r =
     \<lparr>team_espn = team_espn r, team_abbr = team_abbr r, player = player r,
      position = position r, injury_status = injury_status r,
      injury_type = injury_type r, injury_detail = injury_detail r,
      return_date = return_date r, short_comment = short_comment r,
      severity = dict_get severity_map (injury_status r) 1\<rparr>"

text \<open>
  \<^verbatim>\<open>fetch_injuries_espn()\<close>. The \<^verbatim>\<open>except Exception\<close> clause only reports the failure;
  the frame is built from the records appended so far, none after a failed fetch.
\<close>

definition fetch_injuries_espn :: "espn_outcome \<Rightarrow> injury_row list" where
  "fetch_injuries_espn outcome = map with_severity (espn_records outcome)"

section \<open>Injury impact and team summary\<close>

text \<open>\<^verbatim>\<open>sev_weight\<close> of \<^verbatim>\<open>merge_injury_impact\<close>.\<close>

definition sev_weight :: "(int \<times> real) list" where
  "sev_weight = [(3, 1.0), (2, 0.5), (1, 0.2), (0, 0.0)]"

text \<open>
  A row of the frame returned by \<^verbatim>\<open>merge_injury_impact\<close>: the player's row with the
  columns \<^verbatim>\<open>injury_status\<close> (after \<^verbatim>\<open>fillna("")\<close>), \<^verbatim>\<open>is_injured\<close>, \<^verbatim>\<open>injury_severity\<close>
  and \<^verbatim>\<open>injury_bpm_impact\<close>. The columns \<^verbatim>\<open>player_norm\<close>, \<^verbatim>\<open>severity\<close> and
  \<^verbatim>\<open>injury_type\<close> are not read after \<^verbatim>\<open>merge_injury_impact\<close> and are left out.
\<close>

record merged_row = player_row +
  m_injury_status :: string
  m_is_injured :: bool
  m_injury_severity :: int
  m_injury_bpm_impact :: real

text \<open>
  The last lines of \<^verbatim>\<open>merge_injury_impact\<close> for one row, given its columns
  \<^verbatim>\<open>injury_status\<close> and \<^verbatim>\<open>severity\<close>, which are NaN (\<^term>\<open>None\<close>) in a row that the left
  merge did not match.
\<close>

definition injury_cols :: "player_row \<Rightarrow> string option \<Rightarrow> int option \<Rightarrow> merged_row" where
  "injury_cols p status_opt severity_opt =
     (let is_injured = (case severity_opt of None \<Rightarrow> False | Some sev \<Rightarrow> sev > 0);
          injury_severity = (case severity_opt of None \<Rightarrow> 0 | Some sev \<Rightarrow> sev);
          status_filled = (case status_opt of None \<Rightarrow> [] | Some st \<Rightarrow> st);
          impact = (if is_injured
                    then py_round (weighted_bpm p * dict_get sev_weight injury_severity 0) 4
                    else 0)
      in \<lparr>pl_player = pl_player p, pl_team = pl_team p, pl_bpm = pl_bpm p,
          pl_min_pct = pl_min_pct p, pl_usg = pl_usg p, pl_ppg = pl_ppg p,
          team_dep_cols = team_dep_cols p,
          m_injury_status = status_filled, m_is_injured = is_injured,
          m_injury_severity = injury_severity, m_injury_bpm_impact = impact\<rparr>)"

text \<open>
  \<^verbatim>\<open>merge_injury_impact(player_df, injury_df)\<close>. The left merge on \<^verbatim>\<open>player_norm\<close> gives
  one row for every injury row with the player's normalised name, and one row with NaN
  in the injury columns for a player without such a row. The parameter \<open>normalise\<close>
  stands for \<^verbatim>\<open>s.lower().strip()\<close>.
\<close>

definition merge_injury_impact ::
    "(string \<Rightarrow> string) \<Rightarrow> player_row list \<Rightarrow> injury_row list \<Rightarrow> merged_row list" where
  "merge_injury_impact normalise player_df injury_df =
     (if injury_df \<noteq> []
      then concat (map (\<lambda>p.
             (let matches = filter (\<lambda>inj. normalise (player inj) = normalise (pl_player p))
                              injury_df
              in if matches = [] then [injury_cols p None None]
                 else map (\<lambda>inj. injury_cols p (Some (injury_status inj))
                                   (Some (severity inj))) matches))
             player_df)
      else map (\<lambda>p. injury_cols p (Some []) (Some 0)) player_df)"

text \<open>\<^verbatim>\<open>sep.join(xs)\<close>.\<close>

definition join_str :: "string \<Rightarrow> string list \<Rightarrow> string" where
  "join_str sep xs = (case xs of [] \<Rightarrow> [] | x # rest \<Rightarrow> x @ concat (map (\<lambda>y. sep @ y) rest))"

text \<open>
  The loop \<^verbatim>\<open>for team, grp in merged.groupby("team")\<close> appends one dictionary for each
  group; an exception raised while a dictionary is built ends the loop. The model collects
  the results of the iterations, up to the first exception.
\<close>

fun collect_rows :: "(error + 'a) list \<Rightarrow> error + 'a list" where
  "collect_rows [] = Inr []"
| "collect_rows (x # xs) =
     (case x of
        Inl e \<Rightarrow> Inl e
      | Inr v \<Rightarrow> (case collect_rows xs of Inl e \<Rightarrow> Inl e | Inr vs \<Rightarrow> Inr (v # vs)))"

text \<open>
  The dictionary that \<^verbatim>\<open>build_team_summary\<close> appends for the group \<open>grp\<close> of a team,
  together with the column \<^verbatim>\<open>upset_vulnerability\<close>, which the source computes from the
  columns of the same row once all dictionaries are in a frame. \<^verbatim>\<open>grp[column].iloc[0]\<close>
  raises \<^verbatim>\<open>IndexError\<close> on a group without rows. Every merged frame has the columns that
  the tests \<^verbatim>\<open>column in grp.columns\<close> look for.
\<close>

definition team_record :: "string \<Rightarrow> merged_row list \<Rightarrow> error + team_summary_row" where
  "team_record team_name grp =
     (let injured = filter m_is_injured grp;
          top = sort_desc weighted_bpm grp;
          star_injured = (length top > 0 \<and> m_is_injured (hd top))
      in case grp of
           [] \<Rightarrow> Inl IndexError
         | first_row # other_rows \<Rightarrow>
             (let cols = team_dep_cols first_row;
                  total_inj = py_round (sum_list (map m_injury_bpm_impact injured)) 4
              in Inr
                   \<lparr>team = team_name,
                    star_player = dep_star_player cols,
                    star_player_bpm = dep_star_player_bpm cols,
                    star_player_usg = dep_star_player_usg cols,
                    star_player_ppg = dep_star_player_ppg cols,
                    star_dependency_pct = dep_star_dependency_pct cols,
                    top2_dependency_pct = dep_top2_dependency_pct cols,
                    team_total_bpm = dep_team_total_bpm cols,
                    star_is_injured = star_injured,
                    n_injured = int (length injured),
                    n_out = int (length (filter (\<lambda>r. m_injury_severity r = 3) injured)),
                    n_questionable =
                      int (length (filter (\<lambda>r. m_injury_severity r = 2) injured)),
                    team_total_injury_bpm = total_inj,
                    star_injury_bpm =
                      (if star_injured
                       then py_round (sum_list (map m_injury_bpm_impact
                              (filter (\<lambda>r. pl_player r = pl_player (hd top)) injured))) 4
                       else 0),
                    injured_players_list = join_str '', '' (map pl_player injured),
                    injured_statuses =
                      join_str '', ''
                        (map (\<lambda>r. pl_player r @ '' ('' @ m_injury_status r @ '')'') injured),
                    upset_vulnerability =
                      py_round
                        (clip (dep_star_dependency_pct cols * 0.4
                               + clip (total_inj * 10) 0 30
                               + (if star_injured then 30 else 0)) 0 100) 1\<rparr>))"

text \<open>
  \<^verbatim>\<open>build_team_summary(merged, tournament_teams)\<close>. A frame built from no dictionary has
  no column, and reading \<^verbatim>\<open>df["star_dependency_pct"]\<close> raises \<^verbatim>\<open>KeyError\<close>.
\<close>

definition build_team_summary ::
    "merged_row list \<Rightarrow> string list \<Rightarrow> error + team_summary_row list" where
  "build_team_summary merged tournament_teams =
     (case collect_rows
             (map (\<lambda>team_name.
                    team_record team_name (filter (\<lambda>r. pl_team r = team_name) merged))
                (group_keys (map pl_team merged))) of
        Inl e \<Rightarrow> Inl e
      | Inr records \<Rightarrow>
          if records = [] then Inl (KeyError ''star_dependency_pct'')
          else Inr (filter (\<lambda>row. team row \<in> set tournament_teams) records))"

text \<open>\<^verbatim>\<open>Config.TOURNAMENT_TEAMS\<close>.\<close>

definition TOURNAMENT_TEAMS :: "string list" where
  "TOURNAMENT_TEAMS =
     [''Duke'', ''Auburn'', ''Iowa St.'', ''Florida'', ''Tennessee'', ''Michigan St.'',
      ''Texas Tech'', ''Alabama'', ''Ole Miss'', ''Missouri'', ''Kentucky'', ''Arizona'',
      ''Oregon'', ''Clemson'', ''Kansas'', ''Virginia'', ''New Mexico'', ''McNeese'',
      ''San Diego St.'', ''Saint Mary's'', ''Vanderbilt'', ''Yale'', ''Baylor'',
      ''Illinois'', ''Georgia'', ''Mississippi St.'', ''Marquette'', ''North Carolina'',
      ''UCLA'', ''Michigan'', ''Colorado'', ''Louisville'', ''Purdue'', ''Oklahoma'',
      ''BYU'', ''Wake Forest'', ''Dayton'', ''Memphis'', ''Kansas St.'', ''Texas A&M'',
      ''Arkansas'', ''UConn'', ''St. John's'', ''Creighton'', ''Wisconsin'', ''Oregon St.'',
      ''VCU'', ''Nebraska'', ''Texas'', ''West Virginia'', ''Notre Dame'', ''Utah St.'',
      ''High Point'', ''Bryant'', ''Lipscomb'', ''Montana'', ''SIUE'', ''American'',
      ''Robert Morris'', ''Norfolk St.'', ''Wofford'', ''Omaha'', ''Stetson'',
      ''Longwood'', ''SIU Edwardsville'', ''Akron'', ''Stephen F. Austin'']"

section \<open>Step 2\<close>

text \<open>
  \<^verbatim>\<open>depth_label(dep)\<close>; the source returns a descriptive string for each of the four
  levels, and \<^verbatim>\<open>"Unknown"\<close> is the label of a profile without a team row.
\<close>

datatype depth = One_Man_Show | Star_Led | Balanced | Deep | Unknown_depth

definition depth_label :: "real \<Rightarrow> depth" where
  "depth_label dep =
     (if dep \<ge> 60 then One_Man_Show
      else if dep \<ge> 45 then Star_Led
      else if dep \<ge> 30 then Balanced
      else Deep)"

text \<open>
  The two dictionaries that step 2 stores in a team profile; keys that the dictionary of
  a profile without a team row lacks are optional fields.
\<close>

record onoff =
  oo_star_player :: string
  oo_star_player_bpm :: "real option"
  oo_star_player_usg :: "real option"
  oo_star_player_ppg :: "real option"
  oo_star_dependency_pct :: real
  oo_top2_dependency_pct :: "real option"
  oo_team_total_bpm :: "real option"
  oo_depth_label :: depth

record profile_injuries =
  pi_has_injuries :: bool
  pi_star_is_injured :: bool
  pi_n_injured :: int
  pi_n_out :: "int option"
  pi_injured_players :: "string option"
  pi_team_injury_bpm_lost :: "real option"
  pi_upset_vulnerability :: "real option"

text \<open>
  A team profile (its name and the two keys that step 2 writes), and the two documents
  that \<^verbatim>\<open>run_step2\<close> receives and returns; \<^verbatim>\<open>injury_data_included\<close> is absent
  (\<^term>\<open>None\<close>) until step 2 sets it. Their other keys are not touched by step 2.
\<close>

record profile =
  name :: string
  prof_onoff :: "onoff option"
  prof_injuries :: "profile_injuries option"

record chatbot_data =
  predictions :: "prediction list"
  cd_injury_data_included :: "bool option"

record profiles_data =
  profiles :: "profile list"
  pd_injury_data_included :: "bool option"

text \<open>
  \<^verbatim>\<open>lookup = {row["team"].lower().strip(): row for _, row in team_summary.iterrows()}\<close>
  and \<^verbatim>\<open>lookup.get(key)\<close>: of several rows with the same key the last one is kept. The
  parameter \<open>normalise\<close> stands for \<^verbatim>\<open>s.lower().strip()\<close>.
\<close>

definition lookup_get ::
    "(string \<Rightarrow> string) \<Rightarrow> team_summary_row list \<Rightarrow> string \<Rightarrow> team_summary_row option" where
  "lookup_get normalise team_summary key =
     map_of (rev (map (\<lambda>row. (normalise (team row), row)) team_summary)) key"

text \<open>The body of the loop \<^verbatim>\<open>for profile in profiles\<close> of \<^verbatim>\<open>run_step2\<close>.\<close>

definition patch_profile :: "team_summary_row option \<Rightarrow> profile \<Rightarrow> profile" where
  "patch_profile row_opt prof =
     (case row_opt of
        Some row \<Rightarrow>
          (let dep = star_dependency_pct row
           in prof\<lparr>prof_onoff := Some
                     \<lparr>oo_star_player = star_player row,
                      oo_star_player_bpm = Some (star_player_bpm row),
                      oo_star_player_usg = Some (star_player_usg row),
                      oo_star_player_ppg = Some (star_player_ppg row),
                      oo_star_dependency_pct = dep,
                      oo_top2_dependency_pct = Some (top2_dependency_pct row),
                      oo_team_total_bpm = Some (team_total_bpm row),
                      oo_depth_label = depth_label dep\<rparr>,
                   prof_injuries := Some
                     \<lparr>pi_has_injuries = (n_injured row > 0),
                      pi_star_is_injured = star_is_injured row,
                      pi_n_injured = n_injured row,
                      pi_n_out = Some (n_out row),
                      pi_injured_players = Some (injured_statuses row),
                      pi_team_injury_bpm_lost = Some (team_total_injury_bpm row),
                      pi_upset_vulnerability = Some (upset_vulnerability row)\<rparr>\<rparr>)
      | None \<Rightarrow>
          prof\<lparr>prof_onoff := Some
                  \<lparr>oo_star_player = [], oo_star_player_bpm = None,
                   oo_star_player_usg = None, oo_star_player_ppg = None,
                   oo_star_dependency_pct = 50, oo_top2_dependency_pct = None,
                   oo_team_total_bpm = None, oo_depth_label = Unknown_depth\<rparr>,
                prof_injuries := Some
                  \<lparr>pi_has_injuries = False, pi_star_is_injured = False, pi_n_injured = 0,
                   pi_n_out = None, pi_injured_players = None,
                   pi_team_injury_bpm_lost = None, pi_upset_vulnerability = None\<rparr>\<rparr>)"

text \<open>
  \<^verbatim>\<open>run_step2(chatbot_data, profiles_data, output_dir, year)\<close>, with the outcomes of the
  two fetches as inputs. An exception of \<^verbatim>\<open>fetch_player_stats\<close> or of
  \<^verbatim>\<open>build_team_summary\<close> is not caught by \<^verbatim>\<open>run_step2\<close> and ends it. Writing the CSV
  and JSON files and printing are not modelled.
\<close>

definition run_step2 ::
    "(string \<Rightarrow> string) \<Rightarrow> chatbot_data \<Rightarrow> profiles_data \<Rightarrow> int
     \<Rightarrow> player_entry list response \<Rightarrow> espn_outcome
     \<Rightarrow> error + chatbot_data \<times> profiles_data" where
  "run_step2 normalise chatbot profs year player_resp injury_resp =
     (case fetch_player_stats year player_resp of
        Inl e \<Rightarrow> Inl e
      | Inr (player_df, team_dep) \<Rightarrow>
          (let injury_df = fetch_injuries_espn injury_resp
           in if player_df = [] then Inr (chatbot, profs)
              else
                (let merged_df = merge_injury_impact normalise player_df injury_df
                 in case build_team_summary merged_df TOURNAMENT_TEAMS of
                      Inl e \<Rightarrow> Inl e
                    | Inr team_summary \<Rightarrow>
                        (let preds = map (\<lambda>pred.
                                 patch_prediction pred
                                   (lookup_get normalise team_summary
                                      (normalise (t1_name pred)))
                                   (lookup_get normalise team_summary
                                      (normalise (t2_name pred))))
                               (predictions chatbot);
                             chatbot' = chatbot\<lparr>cd_injury_data_included := Some True,
                                                predictions := preds\<rparr>;
                             ps = map (\<lambda>prof.
                                 patch_profile
                                   (lookup_get normalise team_summary
                                      (normalise (name prof))) prof)
                               (profiles profs);
                             profs' = profs\<lparr>profiles := ps,
                                            pd_injury_data_included := Some True\<rparr>
                         in Inr (chatbot', profs')))))"

section \<open>Season statistics aggregator of the unified pipeline\<close>

text \<open>
  Columns of the aggregated frame are \<^typ>\<open>real option\<close>: \<^term>\<open>None\<close> stands for a cell
  that is NaN or infinite. Arithmetic on such cells yields \<^term>\<open>None\<close> as soon as an
  operand is \<^term>\<open>None\<close>, a division also when the divisor is zero, and a comparison
  with \<^term>\<open>None\<close> is false.
\<close>

definition nan_lift :: "(real \<Rightarrow> real \<Rightarrow> real) \<Rightarrow> real option \<Rightarrow> real option \<Rightarrow> real option" where
  "nan_lift f a b =
     (case a of None \<Rightarrow> None | Some x \<Rightarrow> (case b of None \<Rightarrow> None | Some y \<Rightarrow> Some (f x y)))"

definition nan_div :: "real option \<Rightarrow> real option \<Rightarrow> real option" where
  "nan_div a b =
     (case a of
        None \<Rightarrow> None
      | Some x \<Rightarrow> (case b of None \<Rightarrow> None | Some y \<Rightarrow> if y = 0 then None else Some (x / y)))"

definition nan_gt0 :: "real option \<Rightarrow> bool" where
  "nan_gt0 a = (case a of None \<Rightarrow> False | Some x \<Rightarrow> 0 < x)"

text \<open>
  \<^verbatim>\<open>grp[column].mean()\<close> of a group of games; a team that has no group contributes no
  record, which leaves the cell NaN after the frame is assembled and averaged.
\<close>

definition mean_col :: "(game \<Rightarrow> int) \<Rightarrow> game list \<Rightarrow> real option" where
  "mean_col f grp =
     (if grp = [] then None
      else Some (real_of_int (sum_list (map f grp)) / real (length grp)))"

definition count_col :: "game list \<Rightarrow> real option" where
  "count_col grp = (if grp = [] then None else Some (real (length grp)))"

text \<open>The derived columns that \<^verbatim>\<open>compute_season_stats\<close> adds to the aggregated frame.\<close>

record team_stats =
  st_wins :: "real option"
  st_losses :: "real option"
  win_pct :: "real option"
  ppg :: "real option"
  opp_ppg :: "real option"
  point_diff :: "real option"
  pyth :: "real option"
  possessions :: "real option"
  off_eff :: "real option"
  def_eff :: "real option"
  net_eff :: "real option"
  efg_pct :: "real option"
  to_rate :: "real option"
  ft_rate :: "real option"
  oreb_pct :: "real option"
  three_rate :: "real option"
  ast_rate :: "real option"
  blk_rate :: "real option"
  stl_rate :: "real option"
  st_tempo :: "real option"

text \<open>
  The row of the frame returned by \<^verbatim>\<open>compute_season_stats(regular)\<close> for one season and
  team; there is a row exactly when the team won or lost a game of that season. The
  \<^verbatim>\<open>W_...\<close> columns are the means over the games the team won, the \<^verbatim>\<open>L_...\<close> columns
  the means over the games it lost; \<^verbatim>\<open>np.where(c, x, y)\<close> is \<open>if c then x else y\<close>.
\<close>

definition season_stats :: "game list \<Rightarrow> int \<Rightarrow> int \<Rightarrow> team_stats option" where
  "season_stats regular season t =
     (let W = filter (\<lambda>g. Season g = season \<and> WTeamID g = t) regular;
          L = filter (\<lambda>g. Season g = season \<and> LTeamID g = t) regular
      in if W = [] \<and> L = [] then None
         else Some
          (let W_games = count_col W;
               L_games = count_col L;
               W_score = mean_col WScore W;
               opp_score = mean_col LScore W;
               wins = W_games;
               losses = L_games;
               total_games = nan_lift (+) wins losses;
               win_pct = (if nan_gt0 total_games then nan_div wins total_games else Some 0.5);
               ppg = W_score;
               opp_ppg = opp_score;
               point_diff = nan_lift (-) ppg opp_ppg;
               ppg8 = map_option (\<lambda>x. x ^ 8) ppg;
               opp_ppg8 = map_option (\<lambda>x. x ^ 8) opp_ppg;
               pyth = (if nan_gt0 (nan_lift (+) ppg opp_ppg)
                       then nan_div ppg8 (nan_lift (+) ppg8 opp_ppg8) else Some 0.5);
               fga = mean_col (\<lambda>g. FGA (WBox g)) W;
               fgm = mean_col (\<lambda>g. FGM (WBox g)) W;
               fga3 = mean_col (\<lambda>g. FGA3 (WBox g)) W;
               fgm3 = mean_col (\<lambda>g. FGM3 (WBox g)) W;
               fta = mean_col (\<lambda>g. FTA (WBox g)) W;
               ftm = mean_col (\<lambda>g. FTM (WBox g)) W;
               to = mean_col (\<lambda>g. TO (WBox g)) W;
               oreb = mean_col (\<lambda>g. OR (WBox g)) W;
               dreb = mean_col (\<lambda>g. DR (WBox g)) W;
               possessions =
                 nan_lift (+) (nan_lift (+) (nan_lift (-) fga oreb) to)
                   (map_option (\<lambda>x. 0.475 * x) fta);
               off_eff = (if nan_gt0 possessions
                          then map_option (\<lambda>x. x * 100) (nan_div ppg possessions)
                          else Some 100);
               def_eff = (if nan_gt0 possessions
                          then map_option (\<lambda>x. x * 100) (nan_div opp_ppg possessions)
                          else Some 100);
               net_eff = nan_lift (-) off_eff def_eff;
               efg_pct = (if nan_gt0 fga
                          then nan_div (nan_lift (+) fgm (map_option (\<lambda>x. 0.5 * x) fgm3)) fga
                          else Some 0.45);
               to_rate = (if nan_gt0 possessions then nan_div to possessions else Some 0.15);
               ft_rate = (if nan_gt0 fga then nan_div fta fga else Some 0.30);
               oreb_pct = (if nan_gt0 (nan_lift (+) oreb dreb)
                           then nan_div oreb (nan_lift (+) oreb dreb) else Some 0.30);
               three_rate = (if nan_gt0 fga then nan_div fga3 fga else Some 0.30)
           in \<lparr>st_wins = wins, st_losses = losses, win_pct = win_pct, ppg = ppg,
               opp_ppg = opp_ppg, point_diff = point_diff, pyth = pyth,
               possessions = possessions, off_eff = off_eff, def_eff = def_eff,
               net_eff = net_eff, efg_pct = efg_pct, to_rate = to_rate, ft_rate = ft_rate,
               oreb_pct = oreb_pct, three_rate = three_rate,
               ast_rate = mean_col (\<lambda>g. Ast (WBox g)) W,
               blk_rate = mean_col (\<lambda>g. Blk (WBox g)) W,
               stl_rate = mean_col (\<lambda>g. Stl (WBox g)) W,
               st_tempo = possessions\<rparr>))"

section \<open>Season statistics aggregator of the v2 script\<close>

text \<open>
  A division has no finite value when the divisor is zero, and a power with the exponent
  10.25 has none when the base is negative; the result is then \<^term>\<open>None\<close>.
\<close>

definition fdiv :: "real \<Rightarrow> real \<Rightarrow> real option" where
  "fdiv x y = (if y = 0 then None else Some (x / y))"

definition fpow :: "real \<Rightarrow> real \<Rightarrow> real option" where
  "fpow x p = (if x < 0 then None else Some (x powr p))"

text \<open>\<^verbatim>\<open>games[column].sum()\<close> for a column of the winner's or the loser's box score.\<close>

definition col_sum :: "(game \<Rightarrow> int) \<Rightarrow> game list \<Rightarrow> real" where
  "col_sum f games = real_of_int (sum_list (map f games))"

text \<open>The dictionary that \<^verbatim>\<open>build_season_features\<close> stores for a team.\<close>

record v2_features =
  v2_win_ratio :: "real option"
  v2_avg_score :: "real option"
  v2_avg_allowed :: "real option"
  v2_avg_margin :: "real option"
  v2_fg_pct :: "real option"
  v2_fg3_pct :: "real option"
  v2_ft_pct :: "real option"
  v2_efg :: "real option"
  v2_opp_efg :: "real option"
  v2_to_rate :: "real option"
  v2_or_pct :: "real option"
  v2_dr_pct :: "real option"
  v2_ast_rate :: "real option"
  v2_ft_rate :: "real option"
  v2_three_rate :: "real option"
  v2_blk_stl :: "real option"
  v2_off_eff :: "real option"
  v2_def_eff :: "real option"
  v2_net_eff :: "real option"
  v2_pyth :: "real option"
  v2_recent_wr :: "real option"
  v2_n_games :: nat
  v2_n_wins :: nat

text \<open>
  The body of the loop \<^verbatim>\<open>for tid in all_teams\<close> of \<^verbatim>\<open>build_season_features\<close> after the
  test \<^verbatim>\<open>if n_games == 0: continue\<close>, given the season's games \<open>rs\<close> and the games
  \<^verbatim>\<open>wins\<close> and \<^verbatim>\<open>losses\<close> that the team won and lost.
\<close>

definition team_features :: "game list \<Rightarrow> game list \<Rightarrow> game list \<Rightarrow> v2_features" where
  "team_features rs won lost =
     (let wins = won;
          losses = lost;
          n_wins = length wins;
          n_losses = length losses;
          n_games = n_wins + n_losses;
          pts_for = col_sum WScore wins + col_sum LScore losses;
          pts_against = col_sum LScore wins + col_sum WScore losses;
          avg_score = fdiv pts_for (real n_games);
          avg_allowed = fdiv pts_against (real n_games);
          avg_margin = fdiv (pts_for - pts_against) (real n_games);
          tot_fgm = col_sum (\<lambda>g. FGM (WBox g)) wins + col_sum (\<lambda>g. FGM (LBox g)) losses;
          tot_fga = col_sum (\<lambda>g. FGA (WBox g)) wins + col_sum (\<lambda>g. FGA (LBox g)) losses;
          tot_fgm3 = col_sum (\<lambda>g. FGM3 (WBox g)) wins + col_sum (\<lambda>g. FGM3 (LBox g)) losses;
          tot_fga3 = col_sum (\<lambda>g. FGA3 (WBox g)) wins + col_sum (\<lambda>g. FGA3 (LBox g)) losses;
          tot_ftm = col_sum (\<lambda>g. FTM (WBox g)) wins + col_sum (\<lambda>g. FTM (LBox g)) losses;
          tot_fta = col_sum (\<lambda>g. FTA (WBox g)) wins + col_sum (\<lambda>g. FTA (LBox g)) losses;
          tot_or = col_sum (\<lambda>g. OR (WBox g)) wins + col_sum (\<lambda>g. OR (LBox g)) losses;
          tot_dr = col_sum (\<lambda>g. DR (WBox g)) wins + col_sum (\<lambda>g. DR (LBox g)) losses;
          tot_ast = col_sum (\<lambda>g. Ast (WBox g)) wins + col_sum (\<lambda>g. Ast (LBox g)) losses;
          tot_to = col_sum (\<lambda>g. TO (WBox g)) wins + col_sum (\<lambda>g. TO (LBox g)) losses;
          tot_stl = col_sum (\<lambda>g. Stl (WBox g)) wins + col_sum (\<lambda>g. Stl (LBox g)) losses;
          tot_blk = col_sum (\<lambda>g. Blk (WBox g)) wins + col_sum (\<lambda>g. Blk (LBox g)) losses;
          opp_fgm = col_sum (\<lambda>g. FGM (LBox g)) wins + col_sum (\<lambda>g. FGM (WBox g)) losses;
          opp_fga = col_sum (\<lambda>g. FGA (LBox g)) wins + col_sum (\<lambda>g. FGA (WBox g)) losses;
          opp_fgm3 = col_sum (\<lambda>g. FGM3 (LBox g)) wins + col_sum (\<lambda>g. FGM3 (WBox g)) losses;
          opp_or = col_sum (\<lambda>g. OR (LBox g)) wins + col_sum (\<lambda>g. OR (WBox g)) losses;
          opp_to = col_sum (\<lambda>g. TO (LBox g)) wins + col_sum (\<lambda>g. TO (WBox g)) losses;
          poss = tot_fga - tot_or + tot_to + 0.44 * tot_fta;
          opp_poss = opp_fga - opp_or + opp_to
            + 0.44 * (col_sum (\<lambda>g. FTA (LBox g)) wins + col_sum (\<lambda>g. FTA (WBox g)) losses);
          off_eff = map_option (\<lambda>x. x * 100) (fdiv pts_for (max poss 1));
          def_eff = map_option (\<lambda>x. x * 100) (fdiv pts_against (max opp_poss 1));
          pyth_exp = 10.25;
          score_pow = Option.bind avg_score (\<lambda>x. fpow x pyth_exp);
          allowed_pow = Option.bind avg_allowed (\<lambda>x. fpow x pyth_exp);
          pyth = nan_div score_pow
            (map_option (\<lambda>x. max x 0.001) (nan_lift (+) score_pow allowed_pow));
          max_day = Max (set (map DayNum rs));
          recent_w = filter (\<lambda>g. DayNum g \<ge> max_day - 14) wins;
          recent_l = filter (\<lambda>g. DayNum g \<ge> max_day - 14) losses;
          recent_games = length recent_w + length recent_l;
          recent_wr = (if length rs > 0
                       then fdiv (real (length recent_w)) (real (max recent_games 1))
                       else Some 0.5)
      in \<lparr>v2_win_ratio = fdiv (real n_wins) (real (max n_games 1)),
          v2_avg_score = avg_score,
          v2_avg_allowed = avg_allowed,
          v2_avg_margin = avg_margin,
          v2_fg_pct = fdiv tot_fgm (max tot_fga 1),
          v2_fg3_pct = fdiv tot_fgm3 (max tot_fga3 1),
          v2_ft_pct = fdiv tot_ftm (max tot_fta 1),
          v2_efg = fdiv (tot_fgm + 0.5 * tot_fgm3) (max tot_fga 1),
          v2_opp_efg = fdiv (opp_fgm + 0.5 * opp_fgm3) (max opp_fga 1),
          v2_to_rate = fdiv tot_to (max poss 1),
          v2_or_pct = fdiv tot_or
            (max (tot_or + (col_sum (\<lambda>g. DR (LBox g)) wins
                            + col_sum (\<lambda>g. DR (WBox g)) losses)) 1),
          v2_dr_pct = fdiv tot_dr (max (tot_dr + opp_or) 1),
          v2_ast_rate = fdiv tot_ast (max tot_fgm 1),
          v2_ft_rate = fdiv tot_fta (max tot_fga 1),
          v2_three_rate = fdiv tot_fga3 (max tot_fga 1),
          v2_blk_stl = fdiv (tot_blk + tot_stl) (real n_games),
          v2_off_eff = off_eff,
          v2_def_eff = def_eff,
          v2_net_eff = nan_lift (-) off_eff def_eff,
          v2_pyth = pyth,
          v2_recent_wr = recent_wr,
          v2_n_games = n_games,
          v2_n_wins = n_wins\<rparr>)"

text \<open>
  \<^verbatim>\<open>build_season_features(reg, season)[tid]\<close>: the entry of team \<open>tid\<close>, absent when the
  team played no game of the season.
\<close>

definition build_season_features :: "game list \<Rightarrow> int \<Rightarrow> int \<Rightarrow> v2_features option" where
  "build_season_features reg season tid =
     (let rs = filter (\<lambda>g. Season g = season) reg;
          wins = filter (\<lambda>g. WTeamID g = tid) rs;
          losses = filter (\<lambda>g. LTeamID g = tid) rs;
          n_wins = length wins;
          n_losses = length losses;
          n_games = n_wins + n_losses
      in if n_games = 0 then None else Some (team_features rs wins losses))"

text \<open>Every value of a feature dictionary that is a rate is a finite number.\<close>

definition v2_all_finite :: "v2_features \<Rightarrow> bool" where
  "v2_all_finite f =
     (v2_win_ratio f \<noteq> None \<and> v2_avg_score f \<noteq> None \<and> v2_avg_allowed f \<noteq> None
      \<and> v2_avg_margin f \<noteq> None \<and> v2_fg_pct f \<noteq> None \<and> v2_fg3_pct f \<noteq> None
      \<and> v2_ft_pct f \<noteq> None \<and> v2_efg f \<noteq> None \<and> v2_opp_efg f \<noteq> None
      \<and> v2_to_rate f \<noteq> None \<and> v2_or_pct f \<noteq> None \<and> v2_dr_pct f \<noteq> None
      \<and> v2_ast_rate f \<noteq> None \<and> v2_ft_rate f \<noteq> None \<and> v2_three_rate f \<noteq> None
      \<and> v2_blk_stl f \<noteq> None \<and> v2_off_eff f \<noteq> None \<and> v2_def_eff f \<noteq> None
      \<and> v2_net_eff f \<noteq> None \<and> v2_pyth f \<noteq> None \<and> v2_recent_wr f \<noteq> None)"

section \<open>Sample inputs\<close>

text \<open>Box scores of a 70--60 game, and the game itself in a given season.\<close>

definition sample_wbox :: box where
  "sample_wbox = \<lparr>FGM = 25, FGA = 55, FGM3 = 7, FGA3 = 20, FTM = 13, FTA = 18, OR = 10,
     DR = 25, Ast = 14, TO = 12, Stl = 6, Blk = 3, PF = 17\<rparr>"

definition sample_lbox :: box where
  "sample_lbox = \<lparr>FGM = 22, FGA = 58, FGM3 = 5, FGA3 = 21, FTM = 11, FTA = 15, OR = 9,
     DR = 22, Ast = 11, TO = 14, Stl = 5, Blk = 2, PF = 19\<rparr>"

definition sample_game :: "int \<Rightarrow> game" where
  "sample_game season = \<lparr>Season = season, DayNum = 20, WTeamID = 1101, WScore = 70,
     LTeamID = 1102, LScore = 60, WLoc = ''N'', WBox = sample_wbox, LBox = sample_lbox\<rparr>"

text \<open>A prediction before patching, with the given seeds and base probability.\<close>

definition sample_pred :: "int \<Rightarrow> int \<Rightarrow> real \<Rightarrow> prediction" where
  "sample_pred s1 s2 p = \<lparr>t1_name = ''Duke'', t2_name = ''Yale'', t1_seed = s1, t2_seed = s2,
     model_win_prob = p, confidence = ''LEAN'', upset_flag = chalk,
     predicted_winner_name = ''Duke'', model_win_prob_original = None,
     injury_adjusted = None, t1_injury_adj = None, t2_injury_adj = None,
     t1_injury = None, t2_injury = None, pick_flipped_by_injury = None\<rparr>"

text \<open>
  A team row with extreme values: an injured star carrying the whole team's production,
  and injuries costing a hundred times the team total.
\<close>

definition extreme_row :: team_summary_row where
  "extreme_row = \<lparr>team = ''Duke'', star_player = ''A. Player'', star_player_bpm = 20,
     star_player_usg = 40, star_player_ppg = 30, star_dependency_pct = 100,
     top2_dependency_pct = 100, team_total_bpm = 1, star_is_injured = True, n_injured = 5,
     n_out = 5, n_questionable = 0, team_total_injury_bpm = 100, star_injury_bpm = 20,
     injured_players_list = ''A. Player'', injured_statuses = ''A. Player (Out)'',
     upset_vulnerability = 100\<rparr>"

text \<open>A row of the matchup table with the given season, archetypes and outcome.\<close>

definition sample_row :: "int \<Rightarrow> string \<Rightarrow> string \<Rightarrow> int \<Rightarrow> td_row" where
  "sample_row season a1 a2 won = \<lparr>td_Season = season, T1_TeamID = 1101, T2_TeamID = 1102,
     PointDiff = (if won = 1 then 10 else - 10), T1_won = won, T1_Archetype = a1,
     T2_Archetype = a2, features = []\<rparr>"

text \<open>
  Inputs of step 2: a payload of three players of two teams, an injury feed that lists one
  of them, and the two documents.
\<close>

definition sample_players :: "player_entry list" where
  "sample_players =
     [\<lparr>pl_player = ''C. Flagg'', pl_team = ''Duke'', pl_bpm = 10, pl_min_pct = 80,
       pl_usg = 30, pl_ppg = 19\<rparr>,
      \<lparr>pl_player = ''K. Knueppel'', pl_team = ''Duke'', pl_bpm = 5, pl_min_pct = 40,
       pl_usg = 20, pl_ppg = 14\<rparr>,
      \<lparr>pl_player = ''J. Poulakidas'', pl_team = ''Yale'', pl_bpm = 4, pl_min_pct = 50,
       pl_usg = 25, pl_ppg = 19\<rparr>]"

definition sample_injuries :: "espn_team_entry list" where
  "sample_injuries =
     [\<lparr>team_displayName = ''Duke Blue Devils'', team_abbreviation = ''DUKE'',
       team_injuries =
         [\<lparr>athlete_displayName = ''C. Flagg'', athlete_position = ''F'', status = ''Out'',
           details_type = ''Ankle'', details_detail = ''Sprain'',
           details_returnDate = ''2025-03-20'', shortComment = ''Out''\<rparr>]\<rparr>]"

definition sample_chatbot :: chatbot_data where
  "sample_chatbot = \<lparr>predictions = [sample_pred 1 16 0.55], cd_injury_data_included = None\<rparr>"

definition sample_profiles :: profiles_data where
  "sample_profiles =
     \<lparr>profiles = [\<lparr>name = ''Duke'', prof_onoff = None, prof_injuries = None\<rparr>],
      pd_injury_data_included = None\<rparr>"

section \<open>Rating updates are zero-sum\<close>

lemma sum_two_point_shift:
  fixes f f' :: "int \<Rightarrow> real"
  assumes fin: "finite S" and w: "w \<in> S" and l: "l \<in> S"
    and other: "\<And>t. t \<noteq> w \<Longrightarrow> t \<noteq> l \<Longrightarrow> f' t = f t"
    and shift: "w \<noteq> l \<Longrightarrow> f' w = f w + u \<and> f' l = f l - u"
    and same: "w = l \<Longrightarrow> f' w = f w"
  shows "sum f' S = sum f S"
proof -
  have "sum (\<lambda>t. f' t - f t) S = sum (\<lambda>t. f' t - f t) {w, l}"
    using fin w l other by (intro sum.mono_neutral_right) auto
  also have "\<dots> = 0"
    using shift same by (cases "w = l") auto
  finally show ?thesis
    by (simp add: sum_subtractf)
qed

lemma elo_game_other:
  "t \<noteq> WTeamID g \<Longrightarrow> t \<noteq> LTeamID g \<Longrightarrow> rating b (elo_game elo g) t = rating b elo t"
  by (simp add: elo_game_def Let_def rating_def dd_touch_def split: option.splits)

lemma dom_elo_game:
  "dom (elo_game elo g) = insert (WTeamID g) (insert (LTeamID g) (dom elo))"
  by (auto simp add: elo_game_def Let_def dd_touch_def split: option.splits if_splits)

lemma elo_game_same:
  "WTeamID g = LTeamID g \<Longrightarrow>
     rating ELO_BASE (elo_game elo g) (WTeamID g) = rating ELO_BASE elo (WTeamID g)"
  by (simp add: elo_game_def Let_def rating_def dd_touch_def split: option.splits)

lemma elo_game_shift:
  "WTeamID g \<noteq> LTeamID g \<Longrightarrow>
     \<exists>u. rating ELO_BASE (elo_game elo g) (WTeamID g) = rating ELO_BASE elo (WTeamID g) + u
       \<and> rating ELO_BASE (elo_game elo g) (LTeamID g) = rating ELO_BASE elo (LTeamID g) - u"
  by (simp add: elo_game_def Let_def rating_def dd_touch_def split: option.splits)

lemma elo_game_sum:
  "(\<Sum>t \<in> dom (elo_game elo g). rating ELO_BASE (elo_game elo g) t)
     = (\<Sum>t \<in> dom (elo_game elo g). rating ELO_BASE elo t)"
proof (cases "finite (dom (elo_game elo g))")
  case False
  then show ?thesis by simp
next
  case True
  show ?thesis
  proof (cases "WTeamID g = LTeamID g")
    case True
    show ?thesis
    proof (rule sum_two_point_shift [where w = "WTeamID g" and l = "LTeamID g" and u = 0])
      show "finite (dom (elo_game elo g))" by fact
      show "rating ELO_BASE (elo_game elo g) (WTeamID g) = rating ELO_BASE elo (WTeamID g)"
        using True by (rule elo_game_same)
    qed (use True in \<open>simp_all add: dom_elo_game elo_game_other\<close>)
  next
    case False
    from elo_game_shift [OF False, of elo] obtain u where
      u: "rating ELO_BASE (elo_game elo g) (WTeamID g) = rating ELO_BASE elo (WTeamID g) + u"
         "rating ELO_BASE (elo_game elo g) (LTeamID g) = rating ELO_BASE elo (LTeamID g) - u"
      by blast
    show ?thesis
    proof (rule sum_two_point_shift [where w = "WTeamID g" and l = "LTeamID g" and u = u])
      show "finite (dom (elo_game elo g))" by fact
      show "rating ELO_BASE (elo_game elo g) (WTeamID g) = rating ELO_BASE elo (WTeamID g) + u
          \<and> rating ELO_BASE (elo_game elo g) (LTeamID g) = rating ELO_BASE elo (LTeamID g) - u"
        using u by simp
    qed (use False in \<open>simp_all add: dom_elo_game elo_game_other\<close>)
  qed
qed

lemma elo_game_gain_loss:
  "rating ELO_BASE (elo_game elo g) (WTeamID g) - rating ELO_BASE elo (WTeamID g)
     = rating ELO_BASE elo (LTeamID g) - rating ELO_BASE (elo_game elo g) (LTeamID g)"
proof (cases "WTeamID g = LTeamID g")
  case True
  then show ?thesis using elo_game_same [OF True, of elo] by simp
next
  case False
  from elo_game_shift [OF False, of elo] show ?thesis by auto
qed

lemma elo_game_v2_other:
  "elo_game_v2 elo g = Some elo' \<Longrightarrow> t \<noteq> WTeamID g \<Longrightarrow> t \<noteq> LTeamID g \<Longrightarrow>
     rating b elo' t = rating b elo t"
  by (auto simp add: elo_game_v2_def init_v2_def Let_def rating_def split: option.splits if_splits)

lemma dom_elo_game_v2:
  "elo_game_v2 elo g = Some elo' \<Longrightarrow>
     dom elo' = insert (WTeamID g) (insert (LTeamID g) (dom elo))"
  by (auto simp add: elo_game_v2_def init_v2_def Let_def split: option.splits if_splits)

lemma elo_game_v2_same:
  "elo_game_v2 elo g = Some elo' \<Longrightarrow> WTeamID g = LTeamID g \<Longrightarrow>
     rating 1500 elo' (WTeamID g) = rating 1500 elo (WTeamID g)"
  by (auto simp add: elo_game_v2_def init_v2_def Let_def rating_def split: option.splits if_splits)

lemma elo_game_v2_shift:
  "elo_game_v2 elo g = Some elo' \<Longrightarrow> WTeamID g \<noteq> LTeamID g \<Longrightarrow>
     \<exists>u. rating 1500 elo' (WTeamID g) = rating 1500 elo (WTeamID g) + u
       \<and> rating 1500 elo' (LTeamID g) = rating 1500 elo (LTeamID g) - u"
  by (auto simp add: elo_game_v2_def init_v2_def Let_def rating_def split: option.splits if_splits)

lemma elo_game_v2_sum:
  assumes e: "elo_game_v2 elo g = Some elo'"
  shows "(\<Sum>t \<in> dom elo'. rating 1500 elo' t) = (\<Sum>t \<in> dom elo'. rating 1500 elo t)"
proof (cases "finite (dom elo')")
  case False
  then show ?thesis by simp
next
  case True
  show ?thesis
  proof (cases "WTeamID g = LTeamID g")
    case True
    show ?thesis
    proof (rule sum_two_point_shift [where w = "WTeamID g" and l = "LTeamID g" and u = 0])
      show "finite (dom elo')" by fact
      show "rating 1500 elo' (WTeamID g) = rating 1500 elo (WTeamID g)"
        using e True by (rule elo_game_v2_same)
    qed (use True e in \<open>simp_all add: dom_elo_game_v2 elo_game_v2_other\<close>)
  next
    case False
    from elo_game_v2_shift [OF e False] obtain u where
      u: "rating 1500 elo' (WTeamID g) = rating 1500 elo (WTeamID g) + u"
         "rating 1500 elo' (LTeamID g) = rating 1500 elo (LTeamID g) - u"
      by blast
    show ?thesis
    proof (rule sum_two_point_shift [where w = "WTeamID g" and l = "LTeamID g" and u = u])
      show "finite (dom elo')" by fact
      show "rating 1500 elo' (WTeamID g) = rating 1500 elo (WTeamID g) + u
          \<and> rating 1500 elo' (LTeamID g) = rating 1500 elo (LTeamID g) - u"
        using u by simp
    qed (use False e in \<open>simp_all add: dom_elo_game_v2 elo_game_v2_other\<close>)
  qed
qed

lemma elo_game_v2_gain_loss:
  assumes e: "elo_game_v2 elo g = Some elo'"
  shows "rating 1500 elo' (WTeamID g) - rating 1500 elo (WTeamID g)
     = rating 1500 elo (LTeamID g) - rating 1500 elo' (LTeamID g)"
proof (cases "WTeamID g = LTeamID g")
  case True
  then show ?thesis using elo_game_v2_same [OF e True] by simp
next
  case False
  from elo_game_v2_shift [OF e False] show ?thesis by auto
qed

text \<open>
  Claim C2. A game processed by the rating engine adds to the winner's rating what it
  takes from the loser's, and the sum of the ratings of all teams in the dictionary
  after the game equals the sum of the ratings the same teams had before it (a team
  seen for the first time counting with its starting rating). This holds for the
  unified pipeline (starting rating \<open>ELO_BASE\<close>) and, whenever the update has a value,
  for the v2 script (starting rating 1500).
\<close>

theorem elo_update_zero_sum:
  "rating ELO_BASE (elo_game elo g) (WTeamID g) - rating ELO_BASE elo (WTeamID g)
     = rating ELO_BASE elo (LTeamID g) - rating ELO_BASE (elo_game elo g) (LTeamID g)
   \<and> (\<Sum>t \<in> dom (elo_game elo g). rating ELO_BASE (elo_game elo g) t)
     = (\<Sum>t \<in> dom (elo_game elo g). rating ELO_BASE elo t)
   \<and> (elo_game_v2 elo g = Some elo' \<longrightarrow>
        rating 1500 elo' (WTeamID g) - rating 1500 elo (WTeamID g)
          = rating 1500 elo (LTeamID g) - rating 1500 elo' (LTeamID g)
        \<and> (\<Sum>t \<in> dom elo'. rating 1500 elo' t) = (\<Sum>t \<in> dom elo'. rating 1500 elo t))"
  using elo_game_gain_loss [of elo g] elo_game_sum [of elo g]
    elo_game_v2_gain_loss [of elo g elo'] elo_game_v2_sum [of elo g elo']
  by blast

lemma elo_game_v2_sample:
  "\<exists>elo'. elo_game_v2 Map.empty (sample_game 2024) = Some elo'"
  by (simp add: elo_game_v2_def init_v2_def sample_game_def rating_def Let_def)

theorem elo_update_zero_sum_witness:
  "\<exists>elo'. elo_game_v2 Map.empty (sample_game 2024) = Some elo'
     \<and> rating 1500 elo' 1101 - rating 1500 Map.empty 1101
       = rating 1500 Map.empty 1102 - rating 1500 elo' 1102
     \<and> (\<Sum>t \<in> dom elo'. rating 1500 elo' t) = (\<Sum>t \<in> dom elo'. rating 1500 Map.empty t)"
proof -
  from elo_game_v2_sample obtain elo' where
    h: "elo_game_v2 Map.empty (sample_game 2024) = Some elo'" by blast
  from elo_update_zero_sum [of Map.empty "sample_game 2024" elo'] h
  have "rating 1500 elo' (WTeamID (sample_game 2024))
          - rating 1500 Map.empty (WTeamID (sample_game 2024))
        = rating 1500 Map.empty (LTeamID (sample_game 2024))
          - rating 1500 elo' (LTeamID (sample_game 2024))
      \<and> (\<Sum>t \<in> dom elo'. rating 1500 elo' t) = (\<Sum>t \<in> dom elo'. rating 1500 Map.empty t)"
    by blast
  with h show ?thesis
    by (auto simp add: sample_game_def)
qed

section \<open>Seasons read while fitting\<close>

lemma takeWhile_sorted_less:
  "sorted xs \<Longrightarrow> takeWhile (\<lambda>s. s < b) xs = filter (\<lambda>s. s < (b::int)) xs"
proof (induction xs)
  case Nil
  then show ?case by simp
next
  case (Cons x xs)
  show ?case
  proof (cases "x < b")
    case True
    with Cons show ?thesis by simp
  next
    case False
    with Cons.prems have "\<forall>y \<in> set xs. \<not> y < b" by auto
    then have "filter (\<lambda>s. s < b) xs = []" by (simp add: filter_empty_conv)
    with False show ?thesis by simp
  qed
qed

lemma seasons_before:
  "sort (remdups (map Season (filter (\<lambda>g. Season g < b) regular)))
     = takeWhile (\<lambda>s. s < b) (sort (remdups (map Season regular)))"
proof -
  have "map Season (filter (\<lambda>g. Season g < b) regular)
      = filter (\<lambda>s. s < b) (map Season regular)"
    by (simp add: filter_map comp_def)
  then have "sort (remdups (map Season (filter (\<lambda>g. Season g < b) regular)))
      = filter (\<lambda>s. s < b) (sort (remdups (map Season regular)))"
    by (simp add: remdups_filter filter_sort)
  also have "\<dots> = takeWhile (\<lambda>s. s < b) (sort (remdups (map Season regular)))"
    by (simp add: takeWhile_sorted_less)
  finally show ?thesis .
qed

lemma season_games_before:
  "s < b \<Longrightarrow> season_games (filter (\<lambda>g. Season g < b) regular) s = season_games regular s"
proof -
  assume "s < b"
  then have "filter (\<lambda>g. Season g = s) (filter (\<lambda>g. Season g < b) regular)
      = filter (\<lambda>g. Season g = s) regular"
    by (induction regular) auto
  then show ?thesis by (simp add: season_games_def)
qed

lemma elo_seasons_takeWhile:
  "elo_seasons regular b elo acc ss
     = elo_seasons regular b elo acc (takeWhile (\<lambda>s. s < b) ss)"
  by (induction ss arbitrary: elo acc) (simp_all add: Let_def)

lemma elo_seasons_cong:
  "(\<And>s. s \<in> set ss \<Longrightarrow> season_games r1 s = season_games r2 s) \<Longrightarrow>
     elo_seasons r1 b elo acc ss = elo_seasons r2 b elo acc ss"
  by (induction ss arbitrary: elo acc) (simp_all add: elo_season_def Let_def)

lemma compute_elo_before:
  "compute_elo regular b = compute_elo (filter (\<lambda>g. Season g < b) regular) b"
proof -
  let ?F = "filter (\<lambda>g. Season g < b) regular"
  let ?ss = "sort (remdups (map Season regular))"
  have "elo_seasons ?F b Map.empty Map.empty (takeWhile (\<lambda>s. s < b) ?ss)
      = elo_seasons regular b Map.empty Map.empty (takeWhile (\<lambda>s. s < b) ?ss)"
  proof (rule elo_seasons_cong)
    fix s assume "s \<in> set (takeWhile (\<lambda>s. s < b) ?ss)"
    then have "s < b" by (auto dest: set_takeWhileD)
    then show "season_games ?F s = season_games regular s"
      by (rule season_games_before)
  qed
  also have "\<dots> = elo_seasons regular b Map.empty Map.empty ?ss"
    by (rule elo_seasons_takeWhile [symmetric])
  finally show ?thesis
    by (simp add: compute_elo_def seasons_before)
qed

lemma train_test_split_before:
  "list_all (\<lambda>r. td_Season r < b) (fst (train_test_split td b))"
  by (auto simp add: train_test_split_def Let_def list_all_iff split: option.splits)

lemma training_games_v2_before:
  "list_all (\<lambda>g. Season g < 2025) (training_games_v2 trn)"
  by (auto simp add: training_games_v2_def Let_def list_all_iff)

lemma season_games_window:
  "lo \<le> s \<Longrightarrow> s \<le> hi \<Longrightarrow>
     season_games (filter (\<lambda>g. lo \<le> Season g \<and> Season g \<le> hi) reg) s = season_games reg s"
proof -
  assume "lo \<le> s" "s \<le> hi"
  then have "filter (\<lambda>g. Season g = s) (filter (\<lambda>g. lo \<le> Season g \<and> Season g \<le> hi) reg)
      = filter (\<lambda>g. Season g = s) reg"
    by (induction reg) auto
  then show ?thesis by (simp add: season_games_def)
qed

lemma elo_seasons_v2_cong:
  "(\<And>s. s \<in> set ss \<Longrightarrow> season_games r1 s = season_games r2 s) \<Longrightarrow>
     elo_seasons_v2 r1 elo ss = elo_seasons_v2 r2 elo ss"
  by (induction ss arbitrary: elo) (simp_all split: option.splits)

lemma compute_elo_v2_window:
  "compute_elo_v2 reg through_season
     = compute_elo_v2 (filter (\<lambda>g. 2003 \<le> Season g \<and> Season g \<le> through_season) reg)
         through_season"
  unfolding compute_elo_v2_def
  by (rule elo_seasons_v2_cong) (simp add: season_games_window)

lemma season_start_v2_empty: "season_start_v2 Map.empty = Map.empty"
  by (simp add: season_start_v2_def)

lemma compute_elo_v2_no_games: "compute_elo_v2 [] 2025 = Some Map.empty"
  by (simp add: compute_elo_v2_def season_games_def season_start_v2_empty)

lemma compute_elo_v2_one_game:
  "compute_elo_v2 [sample_game 2025] 2025 = elo_game_v2 Map.empty (sample_game 2025)"
proof -
  have s: "Season (sample_game 2025) = 2025"
    by (simp add: sample_game_def)
  show ?thesis
    by (simp add: compute_elo_v2_def season_games_def season_start_v2_empty s
        split: option.splits)
qed

lemma xgb_evals_backtest_rows:
  "filter (\<lambda>r. td_Season r = b) td \<noteq> [] \<Longrightarrow>
     xgb_evals (train_model_inputs td b) = filter (\<lambda>r. td_Season r = b) td"
  by (simp add: train_model_inputs_def train_test_split_def Let_def)

text \<open>
  The v2 script computes its ratings with \<^verbatim>\<open>compute_elo(reg, 2025)\<close> and predicts the
  2025 tournament: a regular-season game of the target season 2025 changes the ratings,
  so the rating accumulation does not read only seasons strictly before the target
  season.
\<close>

theorem elo_v2_reads_target_season:
  "compute_elo_v2 [sample_game 2025] 2025
     \<noteq> compute_elo_v2 (filter (\<lambda>g. Season g < 2025) [sample_game 2025]) 2025"
proof -
  have "filter (\<lambda>g. Season g < 2025) [sample_game 2025] = []"
    by (simp add: sample_game_def)
  moreover have "elo_game_v2 Map.empty (sample_game 2025) \<noteq> Some Map.empty"
  proof
    assume "elo_game_v2 Map.empty (sample_game 2025) = Some Map.empty"
    from dom_elo_game_v2 [OF this] show False by simp
  qed
  ultimately show ?thesis
    by (simp add: compute_elo_v2_no_games compute_elo_v2_one_game)
qed

text \<open>
  Claim C1, amended. For every backtest season:
  \<^item> the ratings computed by the unified pipeline depend only on the regular-season games
    of seasons strictly before the backtest season;
  \<^item> the rows on which \<^verbatim>\<open>train_model\<close> fits the margin regressor, the classifier, the
    leaf-embedding classifier and the meta-learner all belong to seasons strictly before
    the backtest season;
  \<^item> the training rows of the v2 script belong to seasons strictly before 2025;
  \<^item> the ratings of the v2 script depend only on the games of the seasons 2003 to
    \<open>through_season\<close>, the latter included.

  Nothing is stated about the evaluation set that \<^verbatim>\<open>xgb.train\<close> receives for early
  stopping.
\<close>

theorem fitting_reads_earlier_seasons:
  "compute_elo regular b = compute_elo (filter (\<lambda>g. Season g < b) regular) b
   \<and> list_all (\<lambda>r. td_Season r < b) (xgb_dtrain (train_model_inputs td b))
   \<and> list_all (\<lambda>r. td_Season r < b) (clf_fit (train_model_inputs td b))
   \<and> list_all (\<lambda>r. td_Season r < b) (leaf_fit (train_model_inputs td b))
   \<and> list_all (\<lambda>r. td_Season r < b) (meta_fit (train_model_inputs td b))
   \<and> list_all (\<lambda>g. Season g < 2025) (training_games_v2 trn)
   \<and> compute_elo_v2 reg through_season
       = compute_elo_v2 (filter (\<lambda>g. 2003 \<le> Season g \<and> Season g \<le> through_season) reg)
           through_season"
proof -
  have "list_all (\<lambda>r. td_Season r < b) (fst (train_test_split td b))"
    by (rule train_test_split_before)
  then have "list_all (\<lambda>r. td_Season r < b) (xgb_dtrain (train_model_inputs td b))"
    "list_all (\<lambda>r. td_Season r < b) (clf_fit (train_model_inputs td b))"
    "list_all (\<lambda>r. td_Season r < b) (leaf_fit (train_model_inputs td b))"
    "list_all (\<lambda>r. td_Season r < b) (meta_fit (train_model_inputs td b))"
    by (simp_all add: train_model_inputs_def split_beta)
  then show ?thesis
    using compute_elo_before [of regular b] training_games_v2_before [of trn]
      compute_elo_v2_window [of reg through_season]
    by blast
qed

section \<open>Regression at the season boundary\<close>

lemma ELO_DECAY_range: "0 < ELO_DECAY \<and> ELO_DECAY < 1"
  by (simp add: ELO_DECAY_def)

lemma season_start_v2_eq:
  "season_start_v2 elo t = map_option (\<lambda>r. 1500 + 0.75 * (r - 1500)) (elo t)"
  by (cases "elo t") (simp_all add: season_start_v2_def algebra_simps)

lemma elo_seasons_step:
  "season < backtest_season \<Longrightarrow>
     elo_seasons regular backtest_season elo acc (season # rest)
       = elo_seasons regular backtest_season
           (fold (\<lambda>g e. elo_game e g) (season_games regular season) (season_start elo))
           (snapshot acc season
              (fold (\<lambda>g e. elo_game e g) (season_games regular season) (season_start elo)))
           rest"
  by (simp add: elo_season_def Let_def)

lemma elo_seasons_v2_step:
  "elo_seasons_v2 reg elo (season # rest)
     = Option.bind (elo_games_v2 (season_start_v2 elo) (season_games reg season))
         (\<lambda>elo'. elo_seasons_v2 reg elo' rest)"
  by (simp split: option.splits)

text \<open>
  Claim C7. In the loop over seasons, the games of a season are applied to the
  dictionary obtained by regressing every rating it holds: a known team's rating \<open>r\<close>
  becomes \<open>baseline + decay * (r - baseline)\<close>, with baseline \<open>ELO_BASE\<close> and decay
  \<open>ELO_DECAY\<close>, strictly between 0 and 1, in the unified pipeline, and baseline 1500 and
  decay 0.75 in the v2 script; a team without a rating stays without one at the boundary
  and receives exactly the baseline when a game first reads it.
\<close>

theorem season_boundary_regression:
  "(season < backtest_season \<longrightarrow>
      elo_seasons regular backtest_season elo acc (season # rest)
        = elo_seasons regular backtest_season
            (fold (\<lambda>g e. elo_game e g) (season_games regular season) (season_start elo))
            (snapshot acc season
               (fold (\<lambda>g e. elo_game e g) (season_games regular season) (season_start elo)))
            rest)
   \<and> season_start elo t = map_option (\<lambda>r. ELO_BASE + ELO_DECAY * (r - ELO_BASE)) (elo t)
   \<and> 0 < ELO_DECAY \<and> ELO_DECAY < 1
   \<and> (elo t = None \<longrightarrow> dd_touch elo t t = Some ELO_BASE)
   \<and> elo_seasons_v2 reg elo (season # rest)
       = Option.bind (elo_games_v2 (season_start_v2 elo) (season_games reg season))
           (\<lambda>elo'. elo_seasons_v2 reg elo' rest)
   \<and> season_start_v2 elo t = map_option (\<lambda>r. 1500 + 0.75 * (r - 1500)) (elo t)
   \<and> (0::real) < 0.75 \<and> (0.75::real) < 1
   \<and> (elo t = None \<longrightarrow> init_v2 elo t t = Some 1500)"
  using elo_seasons_step [of season backtest_season regular elo acc rest]
    ELO_DECAY_range season_start_v2_eq [of elo t] elo_seasons_v2_step [of reg elo season rest]
  by (simp add: season_start_def dd_touch_def init_v2_def)

theorem season_boundary_regression_witness:
  "(2024::int) < 2025
   \<and> elo_seasons [sample_game 2024] 2025 Map.empty Map.empty [2024]
       = elo_seasons [sample_game 2024] 2025
           (fold (\<lambda>g e. elo_game e g) (season_games [sample_game 2024] 2024)
              (season_start Map.empty))
           (snapshot Map.empty 2024
              (fold (\<lambda>g e. elo_game e g) (season_games [sample_game 2024] 2024)
                 (season_start Map.empty)))
           []
   \<and> (Map.empty :: elo_dict) 1101 = None
   \<and> dd_touch Map.empty 1101 1101 = Some ELO_BASE
   \<and> init_v2 Map.empty 1101 1101 = Some 1500"
  using season_boundary_regression
    [of 2024 2025 "[sample_game 2024]" Map.empty Map.empty "[]" 1101 "[]"]
  by simp

section \<open>Archetype assignment is total\<close>

lemma ARCHETYPE_MAP_keys:
  "map fst ARCHETYPE_MAP =
     concat (map (\<lambda>(a, b). [(a, b, Fast), (a, b, Slow), (a, b, Medium)])
       [(Elite, Elite), (Elite, Good), (Elite, Average), (Elite, Below_Average),
        (Elite, Weak), (Good, Elite), (Average, Elite), (Below_Average, Elite),
        (Weak, Elite), (Good, Good), (Good, Average), (Good, Below_Average),
        (Good, Weak), (Average, Good), (Below_Average, Good), (Weak, Good),
        (Average, Average), (Average, Below_Average), (Below_Average, Average),
        (Below_Average, Below_Average)])"
  by (simp add: ARCHETYPE_MAP_def)

lemma ARCHETYPE_MAP_missing_key:
  "(ot, dt, tp) \<notin> set (map fst ARCHETYPE_MAP) \<Longrightarrow> ot = Weak \<or> dt = Weak"
  unfolding ARCHETYPE_MAP_keys by (cases ot; cases dt; cases tp) simp_all

lemma ARCHETYPE_MAP_values:
  "list_all (\<lambda>(k, n). n \<in> set ARCHETYPE_LABELS \<and> n \<noteq> ''The Unknown'' \<and> n \<noteq> [])
     ARCHETYPE_MAP"
  by code_simp

lemma fallback_labels:
  "list_all (\<lambda>n. n \<in> set ARCHETYPE_LABELS \<and> n \<noteq> ''The Unknown'')
     [''The Cinderella Hopeful'', ''The Defense-First'', ''The Offense-Only'']"
  by code_simp

lemma archetype_of_key_label:
  "archetype_of_key ot dt tp \<in> set ARCHETYPE_LABELS
   \<and> archetype_of_key ot dt tp \<noteq> ''The Unknown''"
proof (cases "map_of ARCHETYPE_MAP (ot, dt, tp)")
  case None
  then have "(ot, dt, tp) \<notin> set (map fst ARCHETYPE_MAP)"
    by (simp add: map_of_eq_None_iff)
  then have "ot = Weak \<or> dt = Weak"
    by (rule ARCHETYPE_MAP_missing_key)
  then have "archetype_of_key ot dt tp
      \<in> set [''The Cinderella Hopeful'', ''The Defense-First'', ''The Offense-Only'']"
    using None by (auto simp add: archetype_of_key_def)
  with fallback_labels show ?thesis
    unfolding list_all_iff by blast
next
  case (Some n)
  then have "((ot, dt, tp), n) \<in> set ARCHETYPE_MAP"
    by (rule map_of_SomeD)
  with ARCHETYPE_MAP_values
  have "n \<in> set ARCHETYPE_LABELS \<and> n \<noteq> ''The Unknown'' \<and> n \<noteq> []"
    unfolding list_all_iff by blast
  with Some show ?thesis
    by (simp add: archetype_of_key_def)
qed

text \<open>
  Claim C4. For each of the \<open>5 \<times> 5 \<times> 3\<close> triples of offense tier, defense tier and
  tempo bucket, the classifier returns a label of the fixed label set (the table entry,
  or one of the three Weak fallbacks), and the label is never \<^verbatim>\<open>'The Unknown'\<close>; the
  same holds for the label \<^verbatim>\<open>assign_archetype\<close> gives to any row of ranks, missing
  ranks included.
\<close>

theorem archetype_assignment_total:
  "archetype_of_key ot dt tp \<in> set ARCHETYPE_LABELS
   \<and> archetype_of_key ot dt tp \<noteq> ''The Unknown''
   \<and> assign_archetype row \<in> set ARCHETYPE_LABELS
   \<and> assign_archetype row \<noteq> ''The Unknown''"
  using archetype_of_key_label [of ot dt tp]
    archetype_of_key_label
      [of "get_tier (RankAdjOE row) \<lparr>elite = 25, good = 75, average = 150, below_avg = 250\<rparr>"
          "get_tier (RankAdjDE row) \<lparr>elite = 25, good = 75, average = 150, below_avg = 250\<rparr>"
          "get_tempo (RankAdjTempo row)"]
  by (simp add: assign_archetype_def Let_def)

section \<open>Seed-implied probability: results\<close>

lemma SEED_WIN_RATES_diag: "map_of SEED_WIN_RATES (s, s) = None"
  by (simp add: SEED_WIN_RATES_def)

lemma get_seed_prob_same: "get_seed_prob s s = 1 / 2"
  by (simp add: get_seed_prob_def dict_get_def SEED_WIN_RATES_diag)

lemma get_seed_prob_swap: "get_seed_prob a b + get_seed_prob b a = 1"
proof (cases "a = b")
  case True
  then show ?thesis by (simp add: get_seed_prob_same)
next
  case False
  then show ?thesis
    by (cases "a \<le> b") (simp_all add: get_seed_prob_def Let_def min_def max_def)
qed

lemma seed_implied_swap: "seed_implied a b + seed_implied b a = 1"
  by (cases a b rule: linorder_cases) (simp_all add: seed_implied_def Let_def min_def max_def)

text \<open>
  Claim C5. In both pipelines the seed-implied probability of the pair \<open>(1, 16)\<close> is the
  table's constant \<open>0.993\<close>, the probability of an equal-seed pair \<open>(s, s)\<close> is exactly
  one half, and the values of a query \<open>(a, b)\<close> and of the reversed query \<open>(b, a)\<close> add
  up to exactly one.
\<close>

theorem seed_implied_probability_algebra:
  "get_seed_prob 1 16 = dict_get SEED_WIN_RATES (1, 16) 0
   \<and> get_seed_prob 1 16 = 0.993
   \<and> get_seed_prob s s = 0.5
   \<and> get_seed_prob a b + get_seed_prob b a = 1
   \<and> seed_implied 1 16 = dict_get seed_probs (1, 16) 0
   \<and> seed_implied 1 16 = 0.993
   \<and> seed_implied s s = 0.5
   \<and> seed_implied a b + seed_implied b a = 1"
proof -
  have u: "get_seed_prob 1 16 = 0.993" "dict_get SEED_WIN_RATES (1, 16) 0 = 0.993"
    by (simp_all add: get_seed_prob_def dict_get_def SEED_WIN_RATES_def)
  have v: "seed_implied 1 16 = 0.993" "dict_get seed_probs (1, 16) 0 = 0.993"
    by (simp_all add: seed_implied_def dict_get_def seed_probs_def)
  have w: "seed_implied s s = 0.5"
    by (simp add: seed_implied_def)
  show ?thesis
    using u v w get_seed_prob_same [of s] get_seed_prob_swap [of a b]
      seed_implied_swap [of a b]
    by simp
qed

section \<open>Bounds of the injury adjustment\<close>

lemma round_half_even_cases: "round_half_even x = \<lfloor>x\<rfloor> \<or> round_half_even x = \<lfloor>x\<rfloor> + 1"
  by (simp add: round_half_even_def Let_def)

lemma round_half_even_ge: "of_int k \<le> x \<Longrightarrow> k \<le> round_half_even x"
proof -
  assume "of_int k \<le> x"
  then have "k \<le> \<lfloor>x\<rfloor>" by (simp add: le_floor_iff)
  with round_half_even_cases [of x] show ?thesis by auto
qed

lemma round_half_even_le: "x \<le> of_int k \<Longrightarrow> round_half_even x \<le> k"
proof (cases "round_half_even x = \<lfloor>x\<rfloor>")
  case True
  assume "x \<le> of_int k"
  then have "\<lfloor>x\<rfloor> \<le> k" by (simp add: floor_le_iff)
  with True show ?thesis by simp
next
  case False
  assume xk: "x \<le> of_int k"
  from False have "\<not> x - of_int \<lfloor>x\<rfloor> < 1 / 2"
    by (auto simp add: round_half_even_def Let_def)
  then have "of_int \<lfloor>x\<rfloor> < x" by linarith
  with xk have "of_int \<lfloor>x\<rfloor> < (of_int k :: real)" by linarith
  then have "\<lfloor>x\<rfloor> < k" by simp
  with round_half_even_cases [of x] show ?thesis by auto
qed

lemma py_round_bounds:
  assumes "of_int a / 10 ^ n \<le> x" and "x \<le> of_int b / 10 ^ n"
  shows "of_int a / 10 ^ n \<le> py_round x n \<and> py_round x n \<le> of_int b / 10 ^ n"
proof -
  have p: "(0::real) < 10 ^ n" by simp
  from assms(1) p have "of_int a \<le> x * 10 ^ n" by (simp add: pos_divide_le_eq)
  then have lo: "a \<le> round_half_even (x * 10 ^ n)" by (rule round_half_even_ge)
  from assms(2) p have "x * 10 ^ n \<le> of_int b" by (simp add: pos_le_divide_eq)
  then have hi: "round_half_even (x * 10 ^ n) \<le> b" by (rule round_half_even_le)
  from lo hi p show ?thesis
    by (simp add: py_round_def divide_le_cancel)
qed

lemma clip_bounds: "lo \<le> hi \<Longrightarrow> lo \<le> clip x lo hi \<and> clip x lo hi \<le> hi"
  by (simp add: clip_def)

lemma compute_injury_adj_bounds:
  "- 0.15 \<le> compute_injury_adj r \<and> compute_injury_adj r \<le> 0"
proof (cases r)
  case None
  then show ?thesis by (simp add: compute_injury_adj_def)
next
  case (Some row)
  obtain x where x: "compute_injury_adj r = py_round (clip x (- 0.15) 0) 4"
    using Some by (simp add: compute_injury_adj_def Let_def)
  have "of_int (- 1500) / 10 ^ 4 \<le> clip x (- 0.15) 0 \<and> clip x (- 0.15) 0 \<le> of_int 0 / 10 ^ 4"
    using clip_bounds [of "- 0.15" 0 x] by simp
  then have "of_int (- 1500) / 10 ^ 4 \<le> py_round (clip x (- 0.15) 0) 4
      \<and> py_round (clip x (- 0.15) 0) 4 \<le> of_int 0 / 10 ^ 4"
    by (intro py_round_bounds) simp_all
  with x show ?thesis by simp
qed

lemma adjusted_prob_bounds:
  "0.02 \<le> py_round (clip x 0.02 0.98) 5 \<and> py_round (clip x 0.02 0.98) 5 \<le> 0.98"
proof -
  have "of_int 2000 / 10 ^ 5 \<le> clip x 0.02 0.98 \<and> clip x 0.02 0.98 \<le> of_int 98000 / 10 ^ 5"
    using clip_bounds [of "0.02" "0.98" x] by simp
  then have "of_int 2000 / 10 ^ 5 \<le> py_round (clip x 0.02 0.98) 5
      \<and> py_round (clip x 0.02 0.98) 5 \<le> of_int 98000 / 10 ^ 5"
    by (intro py_round_bounds) simp_all
  then show ?thesis by simp
qed

lemma patch_prediction_prob:
  "model_win_prob (patch_prediction pred r1 r2)
     = py_round (clip (model_win_prob pred + compute_injury_adj r1 - compute_injury_adj r2)
         0.02 0.98) 5"
  by (simp add: patch_prediction_def Let_def)

lemma py_round_sample: "py_round 0.123456 5 = 0.12346"
  by (simp add: py_round_def round_half_even_def Let_def)

lemma py_round_055: "py_round 0.55 5 = 0.55"
  by (simp add: py_round_def round_half_even_def Let_def)

text \<open>
  With no injury row for either team and the base probability \<open>0.123456\<close>, the adjusted
  probability is \<open>0.12346\<close>: the clipped value rounded to five decimals, not the clipped
  value itself.
\<close>

theorem adjusted_prob_is_rounded:
  "model_win_prob (patch_prediction (sample_pred 1 16 0.123456) None None)
     \<noteq> clip (0.123456 + (- compute_injury_adj None) - (- compute_injury_adj None)) 0.02 0.98"
proof -
  have "model_win_prob (patch_prediction (sample_pred 1 16 0.123456) None None)
      = py_round 0.123456 5"
    by (simp add: patch_prediction_prob sample_pred_def compute_injury_adj_def clip_def)
  also have "\<dots> = 0.12346"
    by (rule py_round_sample)
  finally have l: "model_win_prob (patch_prediction (sample_pred 1 16 0.123456) None None)
      = 0.12346" .
  have r: "clip (0.123456 + (- compute_injury_adj None) - (- compute_injury_adj None))
      0.02 0.98 = 0.123456"
    by (simp add: compute_injury_adj_def clip_def)
  show ?thesis
    unfolding l r by simp
qed

text \<open>
  Claim C3, amended. For every base probability and every pair of team rows (absent rows
  included), each per-team adjustment is a penalty of magnitude at most 0.15, and the
  adjusted probability equals
  \<open>clip (base + team2_penalty - team1_penalty) 0.02 0.98\<close> rounded to five decimals, the
  penalty of a team being the negated adjustment; it lies within \<open>[0.02, 0.98]\<close>.
\<close>

theorem injury_adjustment_bounds:
  "\<bar>compute_injury_adj r\<bar> \<le> 0.15
   \<and> model_win_prob (patch_prediction pred r1 r2)
       = py_round (clip (model_win_prob pred + (- compute_injury_adj r2)
                          - (- compute_injury_adj r1)) 0.02 0.98) 5
   \<and> 0.02 \<le> model_win_prob (patch_prediction pred r1 r2)
   \<and> model_win_prob (patch_prediction pred r1 r2) \<le> 0.98"
proof -
  have a: "\<bar>compute_injury_adj r\<bar> \<le> 0.15"
    using compute_injury_adj_bounds [of r] by simp
  have "model_win_prob pred + compute_injury_adj r1 - compute_injury_adj r2
      = model_win_prob pred + (- compute_injury_adj r2) - (- compute_injury_adj r1)"
    by simp
  then have b: "model_win_prob (patch_prediction pred r1 r2)
      = py_round (clip (model_win_prob pred + (- compute_injury_adj r2)
                         - (- compute_injury_adj r1)) 0.02 0.98) 5"
    unfolding patch_prediction_prob by (rule arg_cong)
  have c: "0.02 \<le> model_win_prob (patch_prediction pred r1 r2)
      \<and> model_win_prob (patch_prediction pred r1 r2) \<le> 0.98"
    unfolding patch_prediction_prob by (rule adjusted_prob_bounds)
  from a b c show ?thesis by blast
qed

lemma py_round_neg_cap: "py_round (- 0.15) 4 = - 0.15"
  by (simp add: py_round_def round_half_even_def Let_def)

lemma py_round_floor_prob: "py_round 0.02 5 = 0.02"
  by (simp add: py_round_def round_half_even_def Let_def)

lemma compute_injury_adj_extreme: "compute_injury_adj (Some extreme_row) = - 0.15"
proof -
  have "compute_injury_adj (Some extreme_row) = py_round (- 0.15) 4"
    by (simp add: compute_injury_adj_def extreme_row_def Let_def clip_def)
  then show ?thesis
    by (simp only: py_round_neg_cap)
qed

theorem injury_adjustment_bounds_witness:
  "compute_injury_adj (Some extreme_row) = - 0.15
   \<and> \<bar>compute_injury_adj (Some extreme_row)\<bar> \<le> 0.15
   \<and> model_win_prob (patch_prediction (sample_pred 1 16 0.03) (Some extreme_row) None) = 0.02
   \<and> 0.02 \<le> model_win_prob (patch_prediction (sample_pred 1 16 0.03) (Some extreme_row) None)
   \<and> model_win_prob (patch_prediction (sample_pred 1 16 0.03) (Some extreme_row) None) \<le> 0.98"
proof -
  have n: "compute_injury_adj None = 0"
    by (simp add: compute_injury_adj_def)
  have "model_win_prob (patch_prediction (sample_pred 1 16 0.03) (Some extreme_row) None)
      = py_round 0.02 5"
    unfolding patch_prediction_prob compute_injury_adj_extreme n
    by (simp add: sample_pred_def clip_def)
  then have "model_win_prob (patch_prediction (sample_pred 1 16 0.03) (Some extreme_row) None)
      = 0.02"
    by (simp only: py_round_floor_prob)
  then show ?thesis
    using injury_adjustment_bounds
      [of "Some extreme_row" "sample_pred 1 16 0.03" "Some extreme_row" None]
      compute_injury_adj_extreme
    by simp
qed


section \<open>Inputs of the injury adjustment\<close>

lemma patch_prediction_confidence:
  "confidence (patch_prediction pred r1 r2)
     = get_confidence (model_win_prob (patch_prediction pred r1 r2))"
  by (simp add: patch_prediction_def Let_def)

lemma patch_prediction_upset:
  "upset_flag (patch_prediction pred r1 r2)
     = compute_upset_flag_v2 (t1_seed pred) (t2_seed pred)
         (model_win_prob (patch_prediction pred r1 r2))
         (build_injury_ctx r1 (t1_name pred)) (build_injury_ctx r2 (t2_name pred))"
  by (simp add: patch_prediction_def Let_def)

lemma patch_prediction_original:
  "model_win_prob_original (patch_prediction pred r1 r2) = Some (model_win_prob pred)"
  by (simp add: patch_prediction_def Let_def)

lemma patch_prediction_ctx:
  "t1_injury (patch_prediction pred r1 r2) = Some (build_injury_ctx r1 (t1_name pred))
   \<and> t2_injury (patch_prediction pred r1 r2) = Some (build_injury_ctx r2 (t2_name pred))"
  by (simp add: patch_prediction_def Let_def)

text \<open>
  Two predictions with the same base probability \<open>0.55\<close>, the same team names and no
  injury row for either team, hence the same two context records, are classified
  differently when their seeds differ: seeds 1 and 16 give an upset watch, seeds 8 and 8
  give chalk.
\<close>

theorem upset_flag_depends_on_seeds:
  "model_win_prob (sample_pred 1 16 0.55) = model_win_prob (sample_pred 8 8 0.55)
   \<and> t1_injury (patch_prediction (sample_pred 1 16 0.55) None None)
       = t1_injury (patch_prediction (sample_pred 8 8 0.55) None None)
   \<and> t2_injury (patch_prediction (sample_pred 1 16 0.55) None None)
       = t2_injury (patch_prediction (sample_pred 8 8 0.55) None None)
   \<and> upset_flag (patch_prediction (sample_pred 1 16 0.55) None None) = UPSET_WATCH 16
   \<and> upset_flag (patch_prediction (sample_pred 8 8 0.55) None None) = chalk
   \<and> upset_flag (patch_prediction (sample_pred 1 16 0.55) None None)
       \<noteq> upset_flag (patch_prediction (sample_pred 8 8 0.55) None None)"
proof -
  have p: "model_win_prob (patch_prediction (sample_pred s1 s2 0.55) None None) = 0.55"
    for s1 s2
  proof -
    have "model_win_prob (patch_prediction (sample_pred s1 s2 0.55) None None)
        = py_round 0.55 5"
      by (simp add: patch_prediction_prob sample_pred_def compute_injury_adj_def clip_def)
    then show ?thesis
      by (simp only: py_round_055)
  qed
  have a: "upset_flag (patch_prediction (sample_pred 1 16 0.55) None None)
      = UPSET_WATCH 16"
    unfolding patch_prediction_upset p
    by (simp add: compute_upset_flag_v2_def build_injury_ctx_def sample_pred_def Let_def)
  have b: "upset_flag (patch_prediction (sample_pred 8 8 0.55) None None) = chalk"
    unfolding patch_prediction_upset p
    by (simp add: compute_upset_flag_v2_def build_injury_ctx_def sample_pred_def Let_def)
  have c: "t1_injury (patch_prediction (sample_pred 1 16 0.55) None None)
        = t1_injury (patch_prediction (sample_pred 8 8 0.55) None None)"
    "t2_injury (patch_prediction (sample_pred 1 16 0.55) None None)
        = t2_injury (patch_prediction (sample_pred 8 8 0.55) None None)"
    by (simp_all add: patch_prediction_ctx sample_pred_def)
  have d: "model_win_prob (sample_pred 1 16 0.55) = model_win_prob (sample_pred 8 8 0.55)"
    by (simp add: sample_pred_def)
  show ?thesis
    unfolding a b using c d by simp
qed

text \<open>
  Claim C8, amended. The patched prediction is a function of the prediction and the two
  team rows. Its adjusted probability and its confidence tier are determined by the base
  probability and the two team rows; its upset classification is determined by these
  together with the two team names (which, with the rows, make up the two context
  records) and the two seeds; and the base probability is retained as
  \<^verbatim>\<open>model_win_prob_original\<close>.
\<close>

theorem injury_adjustment_deterministic:
  "(model_win_prob p = model_win_prob p' \<longrightarrow>
      model_win_prob (patch_prediction p r1 r2) = model_win_prob (patch_prediction p' r1 r2)
      \<and> confidence (patch_prediction p r1 r2) = confidence (patch_prediction p' r1 r2))
   \<and> (model_win_prob p = model_win_prob p' \<and> t1_name p = t1_name p'
        \<and> t2_name p = t2_name p' \<and> t1_seed p = t1_seed p' \<and> t2_seed p = t2_seed p' \<longrightarrow>
      upset_flag (patch_prediction p r1 r2) = upset_flag (patch_prediction p' r1 r2))
   \<and> model_win_prob_original (patch_prediction p r1 r2) = Some (model_win_prob p)
   \<and> model_win_prob (patch_prediction p r1 r2)
       = py_round (clip (model_win_prob p + compute_injury_adj r1 - compute_injury_adj r2)
           0.02 0.98) 5"
  by (simp add: patch_prediction_confidence patch_prediction_upset patch_prediction_original
      patch_prediction_prob)

theorem injury_adjustment_deterministic_witness:
  "model_win_prob (sample_pred 1 16 0.55)
       = model_win_prob ((sample_pred 1 16 0.55)\<lparr>predicted_winner_name := ''Yale''\<rparr>)
   \<and> model_win_prob (patch_prediction (sample_pred 1 16 0.55) None None)
       = model_win_prob (patch_prediction
           ((sample_pred 1 16 0.55)\<lparr>predicted_winner_name := ''Yale''\<rparr>) None None)
   \<and> confidence (patch_prediction (sample_pred 1 16 0.55) None None)
       = confidence (patch_prediction
           ((sample_pred 1 16 0.55)\<lparr>predicted_winner_name := ''Yale''\<rparr>) None None)
   \<and> upset_flag (patch_prediction (sample_pred 1 16 0.55) None None)
       = upset_flag (patch_prediction
           ((sample_pred 1 16 0.55)\<lparr>predicted_winner_name := ''Yale''\<rparr>) None None)
   \<and> model_win_prob_original (patch_prediction (sample_pred 1 16 0.55) None None)
       = Some 0.55"
  using injury_adjustment_deterministic
    [of "sample_pred 1 16 0.55"
        "(sample_pred 1 16 0.55)\<lparr>predicted_winner_name := ''Yale''\<rparr>" None None]
  by (simp add: sample_pred_def)

section \<open>Complementarity of the archetype matchup matrix\<close>

lemma cell_of_empty: "cell_of Map.empty key = \<lparr>wins = 0, total = 0\<rparr>"
  by (simp add: cell_of_def)

lemma matrix_inv_empty: "matrix_inv Map.empty"
  by (simp add: matrix_inv_def cell_of_empty)

lemma total_add_total:
  "total (cell_of (add_total m k) key) = total (cell_of m key) + (if key = k then 1 else 0)"
  by (simp add: add_total_def cell_of_def)

lemma wins_add_total: "wins (cell_of (add_total m k) key) = wins (cell_of m key)"
  by (simp add: add_total_def cell_of_def)

lemma total_add_wins: "total (cell_of (add_wins m k n) key) = total (cell_of m key)"
  by (simp add: add_wins_def cell_of_def)

lemma wins_add_wins:
  "wins (cell_of (add_wins m k n) key) = wins (cell_of m key) + (if key = k then n else 0)"
  by (simp add: add_wins_def cell_of_def)

lemma add_total_None: "(add_total m k key = None) = (m key = None \<and> key \<noteq> k)"
  by (simp add: add_total_def)

lemma add_wins_None: "(add_wins m k n key = None) = (m key = None \<and> key \<noteq> k)"
  by (simp add: add_wins_def)

lemma matrix_row_total:
  "total (cell_of (matrix_row m row) key)
     = total (cell_of m key)
       + (if key = (T1_Archetype row, T2_Archetype row) then 1 else 0)
       + (if key = (T2_Archetype row, T1_Archetype row) then 1 else 0)"
  unfolding matrix_row_def Let_def total_add_total total_add_wins by simp

lemma matrix_row_wins:
  "wins (cell_of (matrix_row m row) key)
     = wins (cell_of m key)
       + (if key = (T1_Archetype row, T2_Archetype row) then T1_won row else 0)
       + (if key = (T2_Archetype row, T1_Archetype row) then 1 - T1_won row else 0)"
  unfolding matrix_row_def Let_def wins_add_total wins_add_wins by simp

lemma matrix_row_None:
  "(matrix_row m row key = None)
     = (m key = None \<and> key \<noteq> (T1_Archetype row, T2_Archetype row)
        \<and> key \<noteq> (T2_Archetype row, T1_Archetype row))"
  unfolding matrix_row_def Let_def add_total_None add_wins_None by blast

lemma matrix_invD:
  "matrix_inv m \<Longrightarrow>
     (m (a, b) = None \<or> 0 < total (cell_of m (a, b)))
     \<and> total (cell_of m (a, b)) = total (cell_of m (b, a))
     \<and> (a = b \<or> wins (cell_of m (a, b)) + wins (cell_of m (b, a)) = total (cell_of m (a, b)))
     \<and> total (cell_of m (a, a)) = 2 * wins (cell_of m (a, a))
     \<and> (m (a, b) = None) = (m (b, a) = None)"
  unfolding matrix_inv_def by blast

lemma total_cell_of_None: "m key = None \<Longrightarrow> total (cell_of m key) = 0"
  by (simp add: cell_of_def)

lemma matrix_inv_row:
  assumes "matrix_inv m"
  shows "matrix_inv (matrix_row m row)"
  unfolding matrix_inv_def
proof (intro allI conjI)
  fix a b
  define p where "p = ((a, b) = (T1_Archetype row, T2_Archetype row))"
  define q where "q = ((a, b) = (T2_Archetype row, T1_Archetype row))"
  define d where "d = ((a, a) = (T1_Archetype row, T2_Archetype row))"
  have swap1: "((b, a) = (T1_Archetype row, T2_Archetype row)) = q"
    unfolding q_def by blast
  have swap2: "((b, a) = (T2_Archetype row, T1_Archetype row)) = p"
    unfolding p_def by blast
  have diag: "((a, a) = (T2_Archetype row, T1_Archetype row)) = d"
    unfolding d_def by blast
  have tot_ab: "total (cell_of (matrix_row m row) (a, b))
      = total (cell_of m (a, b)) + (if p then 1 else 0) + (if q then 1 else 0)"
    unfolding p_def q_def by (rule matrix_row_total)
  have tot_ba: "total (cell_of (matrix_row m row) (b, a))
      = total (cell_of m (b, a)) + (if q then 1 else 0) + (if p then 1 else 0)"
    unfolding swap1 [symmetric] swap2 [symmetric] by (rule matrix_row_total)
  have tot_aa: "total (cell_of (matrix_row m row) (a, a))
      = total (cell_of m (a, a)) + (if d then 1 else 0) + (if d then 1 else 0)"
    unfolding matrix_row_total diag unfolding d_def [symmetric] by (rule refl)
  have win_ab: "wins (cell_of (matrix_row m row) (a, b))
      = wins (cell_of m (a, b)) + (if p then T1_won row else 0)
        + (if q then 1 - T1_won row else 0)"
    unfolding p_def q_def by (rule matrix_row_wins)
  have win_ba: "wins (cell_of (matrix_row m row) (b, a))
      = wins (cell_of m (b, a)) + (if q then T1_won row else 0)
        + (if p then 1 - T1_won row else 0)"
    unfolding swap1 [symmetric] swap2 [symmetric] by (rule matrix_row_wins)
  have win_aa: "wins (cell_of (matrix_row m row) (a, a))
      = wins (cell_of m (a, a)) + (if d then T1_won row else 0)
        + (if d then 1 - T1_won row else 0)"
    unfolding matrix_row_wins diag unfolding d_def [symmetric] by (rule refl)
  have none_ab: "(matrix_row m row (a, b) = None) = (m (a, b) = None \<and> \<not> p \<and> \<not> q)"
    unfolding p_def q_def by (rule matrix_row_None)
  have none_ba: "(matrix_row m row (b, a) = None) = (m (b, a) = None \<and> \<not> q \<and> \<not> p)"
    unfolding swap1 [symmetric] swap2 [symmetric] by (rule matrix_row_None)
  note inv = matrix_invD [OF assms, of a b]
  from inv have i1: "m (a, b) = None \<or> 0 < total (cell_of m (a, b))" by blast
  from inv have i2: "total (cell_of m (a, b)) = total (cell_of m (b, a))" by blast
  from inv have i3: "a = b \<or> wins (cell_of m (a, b)) + wins (cell_of m (b, a))
      = total (cell_of m (a, b))" by blast
  from inv have i4: "total (cell_of m (a, a)) = 2 * wins (cell_of m (a, a))" by blast
  from inv have i5: "(m (a, b) = None) = (m (b, a) = None)" by blast
  have nonneg: "0 \<le> total (cell_of m (a, b))"
    using i1 total_cell_of_None [of m "(a, b)"] by auto
  show "matrix_row m row (a, b) = None \<or> 0 < total (cell_of (matrix_row m row) (a, b))"
    unfolding tot_ab none_ab using i1 nonneg by (cases p; cases q) auto
  show "total (cell_of (matrix_row m row) (a, b)) = total (cell_of (matrix_row m row) (b, a))"
    unfolding tot_ab tot_ba using i2 by simp
  show "a = b \<or> wins (cell_of (matrix_row m row) (a, b))
        + wins (cell_of (matrix_row m row) (b, a))
      = total (cell_of (matrix_row m row) (a, b))"
    unfolding tot_ab win_ab win_ba using i3 by (cases p; cases q) auto
  show "total (cell_of (matrix_row m row) (a, a)) = 2 * wins (cell_of (matrix_row m row) (a, a))"
    unfolding tot_aa win_aa using i4 by (cases d) auto
  show "(matrix_row m row (a, b) = None) = (matrix_row m row (b, a) = None)"
    unfolding none_ab none_ba using i5 by blast
qed

lemma matrix_inv_fold:
  "matrix_inv m \<Longrightarrow> matrix_inv (fold (\<lambda>row m. matrix_row m row) rows m)"
  by (induction rows arbitrary: m) (simp_all add: matrix_inv_row)

lemma matrix_inv_built: "matrix_inv (fold (\<lambda>row m. matrix_row m row) rows Map.empty)"
  by (rule matrix_inv_fold) (rule matrix_inv_empty)

lemma build_matchup_matrix_Some:
  "build_matchup_matrix rows key = Some e \<Longrightarrow>
     \<exists>c. fold (\<lambda>row m. matrix_row m row) rows Map.empty key = Some c \<and> e = with_win_rate c"
  by (auto simp add: build_matchup_matrix_def Let_def)

lemma matchup_matrix_distinct:
  assumes ne: "a \<noteq> b" and e: "build_matchup_matrix rows (a, b) = Some e"
  shows "\<exists>e'. build_matchup_matrix rows (b, a) = Some e' \<and> total e' = total e
      \<and> wins e + wins e' = total e \<and> win_rate e + win_rate e' = 1"
proof -
  let ?M = "fold (\<lambda>row m. matrix_row m row) rows Map.empty"
  from build_matchup_matrix_Some [OF e] obtain c where
    c: "?M (a, b) = Some c" and ec: "e = with_win_rate c" by blast
  note inv = matrix_invD [OF matrix_inv_built, of rows a b]
  from inv c have "?M (b, a) \<noteq> None" by simp
  then obtain c' where c': "?M (b, a) = Some c'" by blast
  from c have cc: "cell_of ?M (a, b) = c" by (simp add: cell_of_def)
  from c' have cc': "cell_of ?M (b, a) = c'" by (simp add: cell_of_def)
  from inv c have pos: "0 < total c" unfolding cc by simp
  from inv have tot: "total c = total c'" unfolding cc cc' by blast
  from inv ne have sum: "wins c + wins c' = total c" unfolding cc cc' by blast
  have "real_of_int (wins c) / real_of_int (total c)
      + real_of_int (wins c') / real_of_int (total c)
      = real_of_int (wins c + wins c') / real_of_int (total c)"
    by (simp add: add_divide_distrib)
  also have "\<dots> = 1"
    using pos unfolding sum by simp
  finally have rate: "win_rate (with_win_rate c) + win_rate (with_win_rate c') = 1"
    using pos tot by (simp add: with_win_rate_def)
  have "build_matchup_matrix rows (b, a) = Some (with_win_rate c')"
    using c' by (simp add: build_matchup_matrix_def Let_def)
  moreover have "total (with_win_rate c') = total e" "wins e + wins (with_win_rate c') = total e"
    using tot sum unfolding ec by (simp_all add: with_win_rate_def)
  ultimately show ?thesis
    using rate unfolding ec by blast
qed

lemma matchup_matrix_same:
  assumes e: "build_matchup_matrix rows (a, a) = Some e"
  shows "0 < total e \<and> win_rate e = 1 / 2"
proof -
  let ?M = "fold (\<lambda>row m. matrix_row m row) rows Map.empty"
  from build_matchup_matrix_Some [OF e] obtain c where
    c: "?M (a, a) = Some c" and ec: "e = with_win_rate c" by blast
  note inv = matrix_invD [OF matrix_inv_built, of rows a a]
  from c have cc: "cell_of ?M (a, a) = c" by (simp add: cell_of_def)
  from inv c have pos: "0 < total c" unfolding cc by simp
  from inv have two: "total c = 2 * wins c" unfolding cc by blast
  from pos two have "real_of_int (wins c) / real_of_int (total c) = 1 / 2"
    by simp
  then show ?thesis
    using pos unfolding ec by (simp add: with_win_rate_def)
qed

text \<open>
  Claim C10. In the matrix built by \<^verbatim>\<open>build_matchup_matrix\<close> from any list of rows, if
  the pair \<open>(a, b)\<close> of distinct archetypes has an entry then so has \<open>(b, a)\<close>, the two
  entries have the same total, their wins add up to that total, and their win rates add
  up to exactly one; and an entry of a same-archetype pair \<open>(a, a)\<close> has a positive total
  and the win rate exactly one half.
\<close>

theorem matchup_matrix_complementary:
  "(a \<noteq> b \<and> build_matchup_matrix rows (a, b) = Some e_ab \<longrightarrow>
      (\<exists>e_ba. build_matchup_matrix rows (b, a) = Some e_ba \<and> total e_ba = total e_ab
         \<and> wins e_ab + wins e_ba = total e_ab \<and> win_rate e_ab + win_rate e_ba = 1))
   \<and> (build_matchup_matrix rows (a, a) = Some e_aa \<longrightarrow>
        0 < total e_aa \<and> win_rate e_aa = 1 / 2)"
  using matchup_matrix_distinct [of a b rows e_ab] matchup_matrix_same [of rows a e_aa]
  by blast

lemma sample_matrix:
  "build_matchup_matrix
     [sample_row 2023 ''The Sniper'' ''The Wall'' 1,
      sample_row 2024 ''The Sniper'' ''The Sniper'' 0] (''The Sniper'', ''The Wall'')
     = Some \<lparr>wins = 1, total = 1, win_rate = 1\<rparr>
   \<and> build_matchup_matrix
     [sample_row 2023 ''The Sniper'' ''The Wall'' 1,
      sample_row 2024 ''The Sniper'' ''The Sniper'' 0] (''The Sniper'', ''The Sniper'')
     = Some \<lparr>wins = 1, total = 2, win_rate = 1 / 2\<rparr>"
  by (simp add: build_matchup_matrix_def matrix_row_def add_total_def add_wins_def cell_of_def
      with_win_rate_def sample_row_def Let_def)

theorem matchup_matrix_complementary_witness:
  "''The Sniper'' \<noteq> ''The Wall''
   \<and> build_matchup_matrix
       [sample_row 2023 ''The Sniper'' ''The Wall'' 1,
        sample_row 2024 ''The Sniper'' ''The Sniper'' 0] (''The Sniper'', ''The Wall'')
       = Some \<lparr>wins = 1, total = 1, win_rate = 1\<rparr>
   \<and> (\<exists>e_ba. build_matchup_matrix
         [sample_row 2023 ''The Sniper'' ''The Wall'' 1,
          sample_row 2024 ''The Sniper'' ''The Sniper'' 0] (''The Wall'', ''The Sniper'')
         = Some e_ba \<and> total e_ba = 1 \<and> 1 + wins e_ba = 1 \<and> 1 + win_rate e_ba = 1)
   \<and> build_matchup_matrix
       [sample_row 2023 ''The Sniper'' ''The Wall'' 1,
        sample_row 2024 ''The Sniper'' ''The Sniper'' 0] (''The Sniper'', ''The Sniper'')
       = Some \<lparr>wins = 1, total = 2, win_rate = 1 / 2\<rparr>"
  using matchup_matrix_complementary
    [of "''The Sniper''" "''The Wall''"
        "[sample_row 2023 ''The Sniper'' ''The Wall'' 1,
          sample_row 2024 ''The Sniper'' ''The Sniper'' 0]"
        "\<lparr>wins = 1, total = 1, win_rate = 1\<rparr>"
        "\<lparr>wins = 1, total = 2, win_rate = 1 / 2\<rparr>"]
    sample_matrix
  by simp

section \<open>Season statistics of degenerate teams\<close>

lemma season_stats_no_wins:
  assumes "filter (\<lambda>g. Season g = season \<and> WTeamID g = t) regular = []"
    and "filter (\<lambda>g. Season g = season \<and> LTeamID g = t) regular \<noteq> []"
  shows "\<exists>s. season_stats regular season t = Some s \<and> ppg s = None \<and> opp_ppg s = None
      \<and> point_diff s = None \<and> possessions s = None
      \<and> win_pct s = Some 0.5 \<and> pyth s = Some 0.5 \<and> off_eff s = Some 100
      \<and> def_eff s = Some 100 \<and> efg_pct s = Some 0.45 \<and> to_rate s = Some 0.15
      \<and> ft_rate s = Some 0.30 \<and> oreb_pct s = Some 0.30 \<and> three_rate s = Some 0.30"
  using assms
  by (simp add: season_stats_def Let_def mean_col_def count_col_def nan_lift_def nan_gt0_def)

text \<open>The v2 script: every guarded ratio is a finite number.\<close>

lemma fdiv_max_one: "fdiv x (max y 1) \<noteq> None"
  by (simp add: fdiv_def max_def)

lemma fdiv_pos: "0 < y \<Longrightarrow> fdiv x y \<noteq> None"
  by (simp add: fdiv_def)

lemma col_sum_nonneg: "(\<And>g. g \<in> set games \<Longrightarrow> 0 \<le> f g) \<Longrightarrow> 0 \<le> col_sum f games"
  by (auto simp add: col_sum_def intro!: sum_list_nonneg)

lemma pyth_finite:
  assumes "0 \<le> a" and "0 \<le> b" and "0 < n"
  shows "nan_div (Option.bind (fdiv a n) (\<lambda>x. fpow x p))
           (map_option (\<lambda>x. max x 0.001)
              (nan_lift (+) (Option.bind (fdiv a n) (\<lambda>x. fpow x p))
                 (Option.bind (fdiv b n) (\<lambda>x. fpow x p)))) \<noteq> None"
proof -
  from assms have "0 \<le> a / n" "0 \<le> b / n" by simp_all
  then have "Option.bind (fdiv a n) (\<lambda>x. fpow x p) = Some ((a / n) powr p)"
    "Option.bind (fdiv b n) (\<lambda>x. fpow x p) = Some ((b / n) powr p)"
    using assms(3) by (simp_all add: fdiv_def fpow_def)
  then show ?thesis
    by (simp add: nan_div_def nan_lift_def max_def)
qed

lemma fdiv_max_one_nat: "fdiv x (real (max k 1)) \<noteq> None"
  by (simp add: fdiv_def max_def)

lemma nan_lift_finite: "a \<noteq> None \<Longrightarrow> b \<noteq> None \<Longrightarrow> nan_lift f a b \<noteq> None"
  by (auto simp add: nan_lift_def)

lemma if_finite: "a \<noteq> None \<Longrightarrow> b \<noteq> None \<Longrightarrow> (if c then a else b) \<noteq> None"
  by simp

lemma map_option_finite: "a \<noteq> None \<Longrightarrow> map_option f a \<noteq> None"
  by simp

lemma team_features_finite:
  assumes n: "0 < length won + length lost"
    and pf: "0 \<le> col_sum WScore won + col_sum LScore lost"
    and pa: "0 \<le> col_sum LScore won + col_sum WScore lost"
  shows "v2_all_finite (team_features rs won lost)"
proof -
  from n have rn: "0 < real (length won + length lost)"
    by (simp only: of_nat_0_less_iff)
  note py = pyth_finite [OF pf pa rn]
  note dn = fdiv_pos [OF rn]
  show ?thesis
    unfolding v2_all_finite_def team_features_def Let_def v2_features.simps
    by (intro conjI nan_lift_finite map_option_finite fdiv_max_one fdiv_max_one_nat py dn
        if_finite) simp
qed

lemma build_season_features_finite:
  assumes scores: "\<And>g. g \<in> set reg \<Longrightarrow> 0 \<le> WScore g \<and> 0 \<le> LScore g"
    and f: "build_season_features reg season tid = Some f"
  shows "v2_all_finite f"
proof -
  let ?rs = "filter (\<lambda>g. Season g = season) reg"
  let ?wins = "filter (\<lambda>g. WTeamID g = tid) ?rs"
  let ?losses = "filter (\<lambda>g. LTeamID g = tid) ?rs"
  from f have n: "0 < length ?wins + length ?losses"
    and ff: "f = team_features ?rs ?wins ?losses"
    by (simp_all add: build_season_features_def Let_def split: if_splits)
  have "0 \<le> col_sum WScore ?wins" "0 \<le> col_sum LScore ?losses"
    "0 \<le> col_sum LScore ?wins" "0 \<le> col_sum WScore ?losses"
    using scores by (auto intro!: col_sum_nonneg)
  then have "0 \<le> col_sum WScore ?wins + col_sum LScore ?losses"
    and "0 \<le> col_sum LScore ?wins + col_sum WScore ?losses"
    by simp_all
  with n show ?thesis
    unfolding ff by (rule team_features_finite)
qed

lemma team_features_avg:
  "v2_avg_score (team_features rs won lost)
     = fdiv (col_sum WScore won + col_sum LScore lost) (real (length won + length lost))
   \<and> v2_avg_margin (team_features rs won lost)
     = fdiv (col_sum WScore won + col_sum LScore lost
              - (col_sum LScore won + col_sum WScore lost))
         (real (length won + length lost))"
  unfolding team_features_def Let_def v2_features.simps by simp

lemma build_season_features_sample:
  "\<exists>f. build_season_features [sample_game 2024] 2024 1102 = Some f \<and> v2_all_finite f
     \<and> v2_avg_score f = Some 60 \<and> v2_avg_margin f = Some (- 10)"
proof -
  have w: "filter (\<lambda>g. WTeamID g = 1102) (filter (\<lambda>g. Season g = 2024) [sample_game 2024])
      = []"
    and l: "filter (\<lambda>g. LTeamID g = 1102) (filter (\<lambda>g. Season g = 2024) [sample_game 2024])
      = [sample_game 2024]"
    by (simp_all add: sample_game_def)
  have b: "build_season_features [sample_game 2024] 2024 1102
      = Some (team_features (filter (\<lambda>g. Season g = 2024) [sample_game 2024]) []
          [sample_game 2024])"
    unfolding build_season_features_def Let_def w l by simp
  have "\<And>g. g \<in> set [sample_game 2024] \<Longrightarrow> 0 \<le> WScore g \<and> 0 \<le> LScore g"
    by (simp add: sample_game_def)
  from build_season_features_finite [OF this b]
  have "v2_all_finite (team_features (filter (\<lambda>g. Season g = 2024) [sample_game 2024]) []
      [sample_game 2024])" .
  moreover have "WScore (sample_game 2024) = 70" "LScore (sample_game 2024) = 60"
    by (simp_all add: sample_game_def)
  ultimately show ?thesis
    unfolding b by (simp add: team_features_avg fdiv_def col_sum_def)
qed

text \<open>
  Claim C6 at a failing input. In a season whose only game team 1101 wins 70--60 over
  team 1102, the winless team 1102 has a row in the aggregated statistics whose points
  per game and point differential are not finite numbers (they are NaN), while its
  guarded ratios take their defaults; the undefeated team 1101 has 70 points per game
  and a point differential of 10. On the same input the v2 script's
  \<^verbatim>\<open>build_season_features\<close> gives team 1102 finite values throughout, with an average
  score of 60 and an average margin of \<open>-10\<close>.
\<close>

theorem winless_team_ppg_is_nan:
  "\<exists>s. season_stats [sample_game 2024] 2024 1102 = Some s
     \<and> ppg s = None \<and> point_diff s = None \<and> win_pct s = Some 0.5
     \<and> (\<exists>s'. season_stats [sample_game 2024] 2024 1101 = Some s'
          \<and> ppg s' = Some 70 \<and> point_diff s' = Some 10)
     \<and> (\<exists>f. build_season_features [sample_game 2024] 2024 1102 = Some f
          \<and> v2_all_finite f \<and> v2_avg_score f = Some 60 \<and> v2_avg_margin f = Some (- 10))"
proof -
  have "filter (\<lambda>g. Season g = 2024 \<and> WTeamID g = 1102) [sample_game 2024] = []"
    "filter (\<lambda>g. Season g = 2024 \<and> LTeamID g = 1102) [sample_game 2024] \<noteq> []"
    by (simp_all add: sample_game_def)
  from season_stats_no_wins [OF this] obtain s where
    s: "season_stats [sample_game 2024] 2024 1102 = Some s" "ppg s = None"
       "point_diff s = None" "win_pct s = Some 0.5"
    by blast
  have w: "filter (\<lambda>g. Season g = 2024 \<and> WTeamID g = 1101) [sample_game 2024]
      = [sample_game 2024]"
    "filter (\<lambda>g. Season g = 2024 \<and> LTeamID g = 1101) [sample_game 2024] = []"
    by (simp_all add: sample_game_def)
  have sc: "WScore (sample_game 2024) = 70" "LScore (sample_game 2024) = 60"
    by (simp_all add: sample_game_def)
  have "\<exists>s'. season_stats [sample_game 2024] 2024 1101 = Some s'
      \<and> ppg s' = Some 70 \<and> point_diff s' = Some 10"
    unfolding season_stats_def w
    by (simp add: Let_def mean_col_def count_col_def nan_lift_def sc)
  with s build_season_features_sample show ?thesis by blast
qed

section \<open>Degradation of the auxiliary fetches\<close>

lemma fetch_player_stats_failed: "fetch_player_stats year Failed = Inr ([], [])"
  by (simp add: fetch_player_stats_def)

lemma group_keys_Nil: "(group_keys ks = []) = (ks = [])"
proof -
  have "set (group_keys ks) = set ks"
    by (simp add: group_keys_def)
  thus ?thesis
    by (metis set_empty)
qed

lemma fetch_player_stats_empty_payload:
  "fetch_player_stats year (Fetched []) = Inl (KeyError ''team'')"
  by (simp add: fetch_player_stats_def group_keys_def)

lemma merge_team_dep_Nil: "(merge_team_dep df team_dep = []) =
    (\<forall>p \<in> set df. \<forall>d \<in> set team_dep. dep_team d \<noteq> pl_team p)"
  by (auto simp add: merge_team_dep_def filter_empty_conv)

lemma dep_team_team_dep_row_of: "dep_team (team_dep_row_of t grp) = t"
  by (simp add: team_dep_row_of_def Let_def)

lemma fetch_player_stats_rows:
  assumes "data \<noteq> []"
  shows "\<exists>player_df team_dep.
           fetch_player_stats year (Fetched data) = Inr (player_df, team_dep)
           \<and> player_df \<noteq> []"
proof -
  obtain p where p: "p \<in> set data"
    using assms by (cases data) auto
  let ?team_dep = "map (\<lambda>team_name. team_dep_row_of team_name
                          (filter (\<lambda>p. pl_team p = team_name) data))
                     (group_keys (map pl_team data))"
  have keys: "pl_team p \<in> set (group_keys (map pl_team data))"
    using p by (simp add: group_keys_def)
  hence d: "team_dep_row_of (pl_team p) (filter (\<lambda>q. pl_team q = pl_team p) data)
      \<in> set ?team_dep"
    by (simp add: image_iff) blast
  hence ne: "?team_dep \<noteq> []"
    by auto
  have "merge_team_dep data ?team_dep \<noteq> []"
    unfolding merge_team_dep_Nil using p d dep_team_team_dep_row_of by blast
  with ne show ?thesis
    by (simp add: fetch_player_stats_def Let_def)
qed

text \<open>
  The merge of \<^verbatim>\<open>fetch_player_stats\<close> keeps every player, in the order of the payload, and
  gives each the row computed from the players of its team.
\<close>

lemma filter_key_distinct:
  "distinct ks \<Longrightarrow> k \<in> set ks \<Longrightarrow> filter (\<lambda>k'. k' = k) ks = [k]"
proof (induction ks)
  case Nil
  thus ?case by simp
next
  case (Cons a ks)
  show ?case
  proof (cases "a = k")
    case True
    with Cons.prems have "k \<notin> set ks"
      by simp
    hence "filter (\<lambda>k'. k' = k) ks = []"
      by (auto simp add: filter_empty_conv)
    with True show ?thesis
      by simp
  next
    case False
    with Cons show ?thesis
      by simp
  qed
qed

lemma merge_team_dep_rows:
  assumes "distinct ks" and "pl_team ` set df \<subseteq> set ks"
  shows "merge_team_dep df (map (\<lambda>k. team_dep_row_of k (g k)) ks)
           = map (\<lambda>p. \<lparr>pl_player = pl_player p, pl_team = pl_team p, pl_bpm = pl_bpm p,
                        pl_min_pct = pl_min_pct p, pl_usg = pl_usg p, pl_ppg = pl_ppg p,
                        team_dep_cols = team_dep_row_of (pl_team p) (g (pl_team p))\<rparr>) df"
proof -
  have "filter (\<lambda>d. dep_team d = pl_team p) (map (\<lambda>k. team_dep_row_of k (g k)) ks)
      = [team_dep_row_of (pl_team p) (g (pl_team p))]" if "p \<in> set df" for p
  proof -
    have "pl_team p \<in> set ks"
      using that assms(2) by auto
    hence "filter (\<lambda>k'. k' = pl_team p) ks = [pl_team p]"
      using assms(1) by (rule filter_key_distinct [rotated])
    thus ?thesis
      by (simp add: filter_map comp_def dep_team_team_dep_row_of)
  qed
  thus ?thesis
    unfolding merge_team_dep_def by (induction df) simp_all
qed

lemma fetch_player_stats_frame:
  assumes "data \<noteq> []"
  shows "fetch_player_stats year (Fetched data) =
     Inr (map (\<lambda>p. \<lparr>pl_player = pl_player p, pl_team = pl_team p, pl_bpm = pl_bpm p,
                     pl_min_pct = pl_min_pct p, pl_usg = pl_usg p, pl_ppg = pl_ppg p,
                     team_dep_cols =
                       team_dep_row_of (pl_team p)
                         (filter (\<lambda>q. pl_team q = pl_team p) data)\<rparr>) data,
          map (\<lambda>team_name. team_dep_row_of team_name
                 (filter (\<lambda>q. pl_team q = team_name) data))
            (group_keys (map pl_team data)))"
proof -
  have d: "distinct (group_keys (map pl_team data))"
    by (simp add: group_keys_def)
  have s: "pl_team ` set data \<subseteq> set (group_keys (map pl_team data))"
    by (simp add: group_keys_def)
  have ne: "group_keys (map pl_team data) \<noteq> []"
    using assms by (simp add: group_keys_Nil)
  show ?thesis
    using ne
    by (simp add: fetch_player_stats_def Let_def
          merge_team_dep_rows [OF d s, of "\<lambda>k. filter (\<lambda>q. pl_team q = k) data"])
qed

lemma fetch_player_stats_cases:
  "fetch_player_stats year resp = Inr (player_df, team_dep) \<Longrightarrow>
     (resp = Failed \<and> player_df = []) \<or> (\<exists>data. resp = Fetched data \<and> data \<noteq> [] \<and> player_df \<noteq> [])"
proof (cases resp)
  case Failed
  assume "fetch_player_stats year resp = Inr (player_df, team_dep)"
  with Failed show ?thesis
    by (simp add: fetch_player_stats_failed)
next
  case (Fetched data)
  assume a: "fetch_player_stats year resp = Inr (player_df, team_dep)"
  show ?thesis
  proof (cases "data = []")
    case True
    with a Fetched show ?thesis
      by (simp add: fetch_player_stats_empty_payload)
  next
    case False
    from fetch_player_stats_rows [OF False, of year] a Fetched False show ?thesis
      by auto
  qed
qed

lemma fetch_injuries_espn_failed: "fetch_injuries_espn Espn_failed = []"
  by (simp add: fetch_injuries_espn_def espn_records_def)

lemma fetch_injuries_espn_empty: "fetch_injuries_espn (Espn_fetched []) = []"
  by (simp add: fetch_injuries_espn_def espn_records_def)

lemma concat_map_Nil: "(\<And>x. x \<in> set xs \<Longrightarrow> f x \<noteq> []) \<Longrightarrow> (concat (map f xs) = []) = (xs = [])"
  by (cases xs) auto

lemma merge_injury_impact_Nil:
  "(merge_injury_impact normalise player_df injury_df = []) = (player_df = [])"
proof (cases "injury_df = []")
  case True
  thus ?thesis
    by (simp add: merge_injury_impact_def)
next
  case False
  let ?f = "\<lambda>p. (let matches = filter (\<lambda>inj. normalise (player inj) = normalise (pl_player p))
                              injury_df
              in if matches = [] then [injury_cols p None None]
                 else map (\<lambda>inj. injury_cols p (Some (injury_status inj))
                                   (Some (severity inj))) matches)"
  have "?f x \<noteq> []" for x
    by (simp add: Let_def)
  hence "(concat (map ?f player_df) = []) = (player_df = [])"
    by (intro concat_map_Nil)
  with False show ?thesis
    by (simp add: merge_injury_impact_def)
qed

lemma collect_rows_Inr:
  "(\<And>x. x \<in> set xs \<Longrightarrow> \<exists>v. f x = Inr v) \<Longrightarrow>
     \<exists>vs. collect_rows (map f xs) = Inr vs \<and> length vs = length xs"
proof (induction xs)
  case Nil
  show ?case by simp
next
  case (Cons x xs)
  obtain v where v: "f x = Inr v"
    using Cons.prems by auto
  obtain vs where vs: "collect_rows (map f xs) = Inr vs" "length vs = length xs"
    using Cons by auto
  from v vs show ?case by simp
qed

lemma team_record_Inr: "grp \<noteq> [] \<Longrightarrow> \<exists>row. team_record team_name grp = Inr row"
  by (cases grp) (simp_all add: team_record_def Let_def)

lemma build_team_summary_Inr:
  assumes "merged \<noteq> []"
  shows "\<exists>team_summary. build_team_summary merged tournament_teams = Inr team_summary"
proof -
  let ?f = "\<lambda>team_name. team_record team_name (filter (\<lambda>r. pl_team r = team_name) merged)"
  let ?keys = "group_keys (map pl_team merged)"
  have "\<exists>v. ?f x = Inr v" if "x \<in> set ?keys" for x
  proof -
    from that obtain r where "r \<in> set merged" "pl_team r = x"
      by (auto simp add: group_keys_def)
    hence "filter (\<lambda>r. pl_team r = x) merged \<noteq> []"
      by (auto simp add: filter_empty_conv)
    thus ?thesis
      by (rule team_record_Inr)
  qed
  then obtain records where r: "collect_rows (map ?f ?keys) = Inr records"
      "length records = length ?keys"
    using collect_rows_Inr [of ?keys ?f] by blast
  have "?keys \<noteq> []"
    using assms by (simp add: group_keys_Nil)
  with r have "records \<noteq> []"
    by auto
  with r show ?thesis
    by (simp add: build_team_summary_def)
qed

lemma run_step2_no_players:
  "fetch_player_stats year player_resp = Inr ([], team_dep) \<Longrightarrow>
     run_step2 normalise chatbot profs year player_resp injury_resp = Inr (chatbot, profs)"
  by (simp add: run_step2_def)

lemma run_step2_empty_payload:
  "run_step2 normalise chatbot profs year (Fetched []) injury_resp = Inl (KeyError ''team'')"
  by (simp add: run_step2_def fetch_player_stats_empty_payload)

lemma run_step2_injuries_failed:
  "run_step2 normalise chatbot profs year player_resp Espn_failed
     = run_step2 normalise chatbot profs year player_resp (Espn_fetched [])"
  unfolding run_step2_def fetch_injuries_espn_failed fetch_injuries_espn_empty
  by (rule refl)

lemma run_step2_completes:
  assumes "player_resp \<noteq> Fetched []"
  shows "\<exists>result. run_step2 normalise chatbot profs year player_resp injury_resp = Inr result"
proof (cases player_resp)
  case Failed
  thus ?thesis
    by (simp add: run_step2_def fetch_player_stats_failed)
next
  case (Fetched data)
  with assms have "data \<noteq> []"
    by simp
  then obtain player_df team_dep where
      f: "fetch_player_stats year (Fetched data) = Inr (player_df, team_dep)"
      and ne: "player_df \<noteq> []"
    using fetch_player_stats_rows by blast
  have "merge_injury_impact normalise player_df (fetch_injuries_espn injury_resp) \<noteq> []"
    using ne by (simp add: merge_injury_impact_Nil)
  then obtain team_summary where
      "build_team_summary
         (merge_injury_impact normalise player_df (fetch_injuries_espn injury_resp))
         TOURNAMENT_TEAMS = Inr team_summary"
    using build_team_summary_Inr by blast
  with f ne Fetched show ?thesis
    by (simp add: run_step2_def Let_def)
qed

text \<open>
  After a failed injury fetch no player is injured, so every team row carries no injury
  and every adjustment is zero: the patched probability is the base probability, clipped
  and rounded.
\<close>

lemma collect_rows_mem:
  "collect_rows (map f xs) = Inr vs \<Longrightarrow> v \<in> set vs \<Longrightarrow> \<exists>x \<in> set xs. f x = Inr v"
proof (induction xs arbitrary: vs)
  case Nil
  thus ?case by simp
next
  case (Cons x xs)
  from Cons.prems(1) obtain w ws where w: "f x = Inr w" "collect_rows (map f xs) = Inr ws"
      "vs = w # ws"
    by (auto split: sum.splits)
  show ?case
  proof (cases "v = w")
    case True
    with w show ?thesis by auto
  next
    case False
    with Cons.prems(2) w have "v \<in> set ws"
      by simp
    with Cons.IH [OF w(2)] show ?thesis
      by auto
  qed
qed

lemma py_round_zero: "py_round 0 n = 0"
  by (simp add: py_round_def round_half_even_def)

lemma team_record_no_injury:
  assumes "team_record team_name grp = Inr row" and "\<forall>r \<in> set grp. \<not> m_is_injured r"
  shows "\<not> star_is_injured row \<and> team_total_injury_bpm row = 0 \<and> n_injured row = 0"
proof -
  have inj: "filter m_is_injured grp = []"
    using assms(2) by (simp add: filter_empty_conv)
  have top: "length (sort_desc weighted_bpm grp) > 0 \<Longrightarrow>
      \<not> m_is_injured (hd (sort_desc weighted_bpm grp))"
  proof -
    assume "length (sort_desc weighted_bpm grp) > 0"
    hence "hd (sort_desc weighted_bpm grp) \<in> set (sort_desc weighted_bpm grp)"
      by simp
    hence "hd (sort_desc weighted_bpm grp) \<in> set grp"
      by (simp add: sort_desc_def)
    with assms(2) show ?thesis
      by blast
  qed
  from assms(1) obtain first_row other_rows where "grp = first_row # other_rows"
    by (cases grp) (simp_all add: team_record_def Let_def)
  with assms(1) inj top show ?thesis
    by (auto simp add: team_record_def Let_def py_round_zero)
qed

lemma build_team_summary_no_injury:
  assumes "build_team_summary merged tournament_teams = Inr team_summary"
      and "\<forall>r \<in> set merged. \<not> m_is_injured r"
      and "row \<in> set team_summary"
  shows "\<not> star_is_injured row \<and> team_total_injury_bpm row = 0 \<and> n_injured row = 0"
proof -
  let ?f = "\<lambda>team_name. team_record team_name (filter (\<lambda>r. pl_team r = team_name) merged)"
  from assms(1) obtain records where
      r: "collect_rows (map ?f (group_keys (map pl_team merged))) = Inr records"
      and t: "team_summary = filter (\<lambda>row. team row \<in> set tournament_teams) records"
    by (auto simp add: build_team_summary_def split: sum.splits if_splits)
  from t assms(3) have "row \<in> set records"
    by simp
  with r obtain k where "?f k = Inr row"
    using collect_rows_mem by fastforce
  moreover have "\<forall>r \<in> set (filter (\<lambda>r. pl_team r = k) merged). \<not> m_is_injured r"
    using assms(2) by simp
  ultimately show ?thesis
    by (rule team_record_no_injury)
qed

lemma compute_injury_adj_no_injury:
  "(\<And>row. r = Some row \<Longrightarrow> \<not> star_is_injured row \<and> team_total_injury_bpm row = 0) \<Longrightarrow>
     compute_injury_adj r = 0"
  by (cases r) (simp_all add: compute_injury_adj_def Let_def clip_def py_round_zero)

lemma lookup_get_mem:
  "lookup_get normalise team_summary key = Some row \<Longrightarrow> row \<in> set team_summary"
  by (auto simp add: lookup_get_def dest!: map_of_SomeD)

lemma merge_injury_impact_no_feed:
  "r \<in> set (merge_injury_impact normalise player_df []) \<Longrightarrow> \<not> m_is_injured r"
  by (auto simp add: merge_injury_impact_def injury_cols_def Let_def)

lemma run_step2_injuries_failed_neutral:
  assumes "run_step2 normalise chatbot profs year (Fetched data) Espn_failed
             = Inr (chatbot', profs')"
      and "pred' \<in> set (predictions chatbot')"
  shows "t1_injury_adj pred' = Some 0 \<and> t2_injury_adj pred' = Some 0
         \<and> injury_adjusted pred' = Some False
         \<and> (\<exists>base. model_win_prob_original pred' = Some base
               \<and> model_win_prob pred' = py_round (clip base 0.02 0.98) 5)"
proof -
  obtain player_df team_dep where
      f: "fetch_player_stats year (Fetched data) = Inr (player_df, team_dep)"
    using assms(1) by (auto simp add: run_step2_def split: sum.splits)
  hence ne: "player_df \<noteq> []"
    using fetch_player_stats_cases by blast
  let ?merged = "merge_injury_impact normalise player_df []"
  obtain team_summary where
      b: "build_team_summary ?merged TOURNAMENT_TEAMS = Inr team_summary"
      and c: "predictions chatbot' =
          map (\<lambda>pred. patch_prediction pred
                 (lookup_get normalise team_summary (normalise (t1_name pred)))
                 (lookup_get normalise team_summary (normalise (t2_name pred))))
            (predictions chatbot)"
    using assms(1) f ne
    by (auto simp add: run_step2_def Let_def fetch_injuries_espn_failed split: sum.splits)
  from c assms(2) obtain pred where
      p: "pred' = patch_prediction pred
            (lookup_get normalise team_summary (normalise (t1_name pred)))
            (lookup_get normalise team_summary (normalise (t2_name pred)))"
    by auto
  have z: "compute_injury_adj (lookup_get normalise team_summary key) = 0" for key
  proof (rule compute_injury_adj_no_injury)
    fix row
    assume "lookup_get normalise team_summary key = Some row"
    hence "row \<in> set team_summary"
      by (rule lookup_get_mem)
    with build_team_summary_no_injury [OF b] merge_injury_impact_no_feed
    show "\<not> star_is_injured row \<and> team_total_injury_bpm row = 0"
      by blast
  qed
  show ?thesis
    unfolding p by (simp add: patch_prediction_def Let_def z)
qed

text \<open>The two fetches on the sample payloads.\<close>

lemma fetch_player_stats_sample:
  "map_sum id snd (fetch_player_stats 2025 (Fetched sample_players)) =
     Inr [\<lparr>dep_team = ''Duke'', dep_team_total_bpm = 10, dep_star_player = ''C. Flagg'',
            dep_star_player_bpm = 8, dep_star_player_usg = 30, dep_star_player_ppg = 19,
            dep_star_dependency_pct = 80, dep_top2_dependency_pct = 100\<rparr>,
          \<lparr>dep_team = ''Yale'', dep_team_total_bpm = 2, dep_star_player = ''J. Poulakidas'',
            dep_star_player_bpm = 2, dep_star_player_usg = 25, dep_star_player_ppg = 19,
            dep_star_dependency_pct = 100, dep_top2_dependency_pct = 100\<rparr>]"
  by (simp add: fetch_player_stats_def sample_players_def group_keys_def Let_def
        team_dep_row_of_def sort_desc_def weighted_bpm_def py_round_def round_half_even_def)

lemma fetch_injuries_espn_sample:
  "fetch_injuries_espn (Espn_fetched sample_injuries) =
     [\<lparr>team_espn = ''Duke Blue Devils'', team_abbr = ''DUKE'', player = ''C. Flagg'',
       position = ''F'', injury_status = ''Out'', injury_type = ''Ankle'',
       injury_detail = ''Sprain'', return_date = ''2025-03-20'', short_comment = ''Out'',
       severity = 3\<rparr>]"
  by (simp add: fetch_injuries_espn_def espn_records_def sample_injuries_def
        injury_records_def with_severity_def severity_map_def dict_get_def)

text \<open>
  Claim C9. A failed player fetch yields two empty frames and a failed injury fetch an
  empty frame. When the player fetch fails, \<^verbatim>\<open>run_step2\<close> returns the predictions and the
  profiles it was given, whatever the injury fetch did; it does the same whenever the
  player frame is empty. When the injury fetch fails, \<^verbatim>\<open>run_step2\<close> proceeds exactly as
  with an empty injury feed; and \<^verbatim>\<open>run_step2\<close> returns a result, however the injury
  fetch ended, for every outcome of the player fetch other than a payload without rows.
  (A payload without rows is not a failure of the fetch: no exception is caught, the
  merge on \<^verbatim>\<open>team\<close> raises outside the \<^verbatim>\<open>try\<close> block and \<^verbatim>\<open>run_step2\<close> ends with this
  exception, see \<open>run_step2_empty_payload\<close>; the player frame is empty after a failed
  fetch only, see \<open>fetch_player_stats_cases\<close>.)
\<close>

theorem auxiliary_fetch_degradation:
  "fetch_player_stats year Failed = Inr ([], [])
   \<and> fetch_injuries_espn Espn_failed = []
   \<and> run_step2 normalise chatbot profs year Failed injury_outcome = Inr (chatbot, profs)
   \<and> (fetch_player_stats year empty_resp = Inr ([], team_dep) \<longrightarrow>
        run_step2 normalise chatbot profs year empty_resp injury_outcome
          = Inr (chatbot, profs))
   \<and> run_step2 normalise chatbot profs year player_resp Espn_failed
       = run_step2 normalise chatbot profs year player_resp (Espn_fetched [])
   \<and> (player_resp \<noteq> Fetched [] \<longrightarrow>
        (\<exists>result. run_step2 normalise chatbot profs year player_resp injury_outcome
           = Inr result))"
  using fetch_player_stats_failed [of year]
    run_step2_no_players [of year Failed "[]" normalise chatbot profs injury_outcome]
    run_step2_no_players [of year empty_resp team_dep normalise chatbot profs injury_outcome]
    run_step2_injuries_failed [of normalise chatbot profs year player_resp]
    run_step2_completes [of player_resp normalise chatbot profs year injury_outcome]
  by (simp add: fetch_injuries_espn_failed)

theorem auxiliary_fetch_degradation_witness:
  "fetch_player_stats 2025 Failed = Inr ([], [])
   \<and> run_step2 (\<lambda>s. s) sample_chatbot sample_profiles 2025 Failed Espn_failed
       = Inr (sample_chatbot, sample_profiles)
   \<and> Fetched sample_players \<noteq> Fetched []
   \<and> (\<exists>result. run_step2 (\<lambda>s. s) sample_chatbot sample_profiles 2025
         (Fetched sample_players) Espn_failed = Inr result)"
proof -
  have a: "fetch_player_stats 2025 Failed = Inr ([], [])"
    by (simp add: fetch_player_stats_def)
  have b: "Fetched sample_players \<noteq> Fetched []"
    by (simp add: sample_players_def)
  from a b show ?thesis
    using auxiliary_fetch_degradation
      [of 2025 "\<lambda>s. s" sample_chatbot sample_profiles Espn_failed Failed "[]"
          "Fetched sample_players"]
    by blast
qed

end
